theory Spec2Isabelle
  imports Complex_Main "HOL-Library.Monad_Syntax"
begin

section \<open>Python floats\<close>

text \<open>
  Every dimension of \<^verbatim>\<open>FacePlate.py\<close> is a Python \<^verbatim>\<open>float\<close>, an IEEE 754 binary64
  number. A finite double is an integer mantissa times a power of two; \<open>Flt m e\<close> stands for
  \<open>m * 2 ^ e\<close>. Every operation below returns the canonical form (odd mantissa, or
  \<open>Flt 0 0\<close> for zero), so that equality of \<open>pyfloat\<close> values is Python's \<^verbatim>\<open>==\<close> on
  the numbers they stand for. The model covers the normal range of binary64 (no overflow to
  infinity, no subnormals, no NaN, and the two zeros identified): the script's values
  all lie between \<open>2 ^ -4\<close> and \<open>2 ^ 8\<close> in magnitude.
\<close>

datatype pyfloat = Flt (mant: int) (expo: int)

text \<open>Number of binary digits of a positive integer.\<close>

function bitlen :: "int \<Rightarrow> int" where
  "bitlen n = (if n \<le> 0 then 0 else 1 + bitlen (n div 2))"
  by pat_completeness auto
termination
  by (relation "measure nat") auto

declare bitlen.simps [simp del]

text \<open>Canonical form: trailing zero bits of the mantissa move into the exponent.\<close>

function canon :: "int \<Rightarrow> int \<Rightarrow> pyfloat" where
  "canon m e = (if m = 0 then Flt 0 0 else if even m then canon (m div 2) (e + 1) else Flt m e)"
  by pat_completeness auto
termination
  by (relation "measure (\<lambda>(m, e). nat \<bar>m\<bar>)") auto

declare canon.simps [simp del]

text \<open>
  \<open>rnd n d\<close> is the double nearest to the rational \<open>n / d\<close> (for \<open>0 < d\<close>), ties to
  the even mantissa: the rounding of every binary64 operation and of Python's decimal
  literals. The scale \<open>k\<close> is chosen so that the quotient has exactly 53 bits.
\<close>

definition rnd :: "int \<Rightarrow> int \<Rightarrow> pyfloat" where
  "rnd n d =
     (if n = 0 then Flt 0 0
      else
        let a = \<bar>n\<bar>;
            k0 = bitlen a - bitlen d - 53;
            q0 = (if k0 < 0 then (a * 2 ^ nat (- k0)) div d else a div (d * 2 ^ nat k0));
            k = (if 2 ^ 53 \<le> q0 then k0 + 1 else k0);
            num = (if k < 0 then a * 2 ^ nat (- k) else a);
            den = (if k < 0 then d else d * 2 ^ nat k);
            q = num div den;
            r = num mod den;
            q' = (if den < 2 * r \<or> (2 * r = den \<and> odd q) then q + 1 else q)
        in canon (sgn n * q') k)"

text \<open>The exact value of a double as a fraction of integers, and as a real number.\<close>

definition ratio :: "pyfloat \<Rightarrow> int \<times> int" where
  "ratio x =
     (if 0 \<le> expo x then (mant x * 2 ^ nat (expo x), 1) else (mant x, 2 ^ nat (- expo x)))"

definition val :: "pyfloat \<Rightarrow> real" where
  "val x = real_of_int (fst (ratio x)) / real_of_int (snd (ratio x))"

text \<open>A decimal literal such as \<^verbatim>\<open>16.6\<close> is \<open>lit 166 10\<close>; an \<^verbatim>\<open>int\<close> operand of a
  float operation (\<^verbatim>\<open>0\<close>, \<^verbatim>\<open>1\<close>, \<^verbatim>\<open>2\<close>, the loop index) is converted by \<open>of_pyint\<close>.\<close>

definition lit :: "int \<Rightarrow> int \<Rightarrow> pyfloat" where
  "lit n d = rnd n d"

definition of_pyint :: "int \<Rightarrow> pyfloat" where
  "of_pyint i = rnd i 1"

definition fneg :: "pyfloat \<Rightarrow> pyfloat" where
  "fneg x = Flt (- mant x) (expo x)"

definition fadd :: "pyfloat \<Rightarrow> pyfloat \<Rightarrow> pyfloat" where
  "fadd x y = (case ratio x of (a, b) \<Rightarrow> case ratio y of (c, d) \<Rightarrow> rnd (a * d + c * b) (b * d))"

definition fsub :: "pyfloat \<Rightarrow> pyfloat \<Rightarrow> pyfloat" where
  "fsub x y = (case ratio x of (a, b) \<Rightarrow> case ratio y of (c, d) \<Rightarrow> rnd (a * d - c * b) (b * d))"

definition fmul :: "pyfloat \<Rightarrow> pyfloat \<Rightarrow> pyfloat" where
  "fmul x y = (case ratio x of (a, b) \<Rightarrow> case ratio y of (c, d) \<Rightarrow> rnd (a * c) (b * d))"

text \<open>\<^verbatim>\<open>x / 2\<close>: the script divides by the literal \<^verbatim>\<open>2\<close> only, so no division can raise
  \<^verbatim>\<open>ZeroDivisionError\<close>.\<close>

definition fdiv2 :: "pyfloat \<Rightarrow> pyfloat" where
  "fdiv2 x = (case ratio x of (a, b) \<Rightarrow> rnd a (b * 2))"

section \<open>Parameters\<close>

text \<open>The module-level constants of the script. \<open>NUM_BILRESA\<close> is a Python \<^verbatim>\<open>int\<close>.\<close>

record params =
  FACEPLATE_WIDTH :: pyfloat
  FACEPLATE_HEIGHT :: pyfloat
  FACEPLATE_THICKNESS :: pyfloat
  SCREW_SPACING :: pyfloat
  SCREW_DIAMETER :: pyfloat
  SCREW_COUNTERSINK_DIAMETER :: pyfloat
  SCREW_COUNTERSINK_DEPTH :: pyfloat
  BILRESA_LENGTH :: pyfloat
  BILRESA_WIDTH :: pyfloat
  BILRESA_THICKNESS :: pyfloat
  BILRESA_CORNER_RADIUS :: pyfloat
  NUM_BILRESA :: int
  BILRESA_SPACING :: pyfloat
  LED_HOLE_DIAMETER :: pyfloat
  LED_HEAD_DIAMETER :: pyfloat
  LED_COUNTERSINK_DEPTH :: pyfloat
  BILRESA_FRONT_WALL :: pyfloat
  BILRESA_POCKET_DEPTH :: pyfloat
  BILRESA_CLEARANCE :: pyfloat
  SHELLY_WIDTH :: pyfloat
  SHELLY_HEIGHT :: pyfloat
  SHELLY_DEPTH :: pyfloat
  SHELLY_WALL_THICKNESS :: pyfloat
  SHELLY_LIP_HEIGHT :: pyfloat
  SHELLY_LIP_DEPTH :: pyfloat
  SHELLY_CLEARANCE :: pyfloat
  SHELLY_SHELF_THICKNESS :: pyfloat

definition defaults :: params where
  "defaults = \<lparr>
     FACEPLATE_WIDTH = lit 1460 10,
     FACEPLATE_HEIGHT = lit 860 10,
     FACEPLATE_THICKNESS = lit 40 10,
     SCREW_SPACING = lit 1200 10,
     SCREW_DIAMETER = lit 40 10,
     SCREW_COUNTERSINK_DIAMETER = lit 80 10,
     SCREW_COUNTERSINK_DEPTH = lit 20 10,
     BILRESA_LENGTH = lit 470 10,
     BILRESA_WIDTH = lit 166 10,
     BILRESA_THICKNESS = lit 5 10,
     BILRESA_CORNER_RADIUS = lit 83 10,
     NUM_BILRESA = 3,
     BILRESA_SPACING = lit 400 10,
     LED_HOLE_DIAMETER = lit 1075 100,
     LED_HEAD_DIAMETER = lit 116 10,
     LED_COUNTERSINK_DEPTH = lit 10 10,
     BILRESA_FRONT_WALL = lit 10 10,
     BILRESA_POCKET_DEPTH = lit 7 10,
     BILRESA_CLEARANCE = lit 2 10,
     SHELLY_WIDTH = lit 350 10,
     SHELLY_HEIGHT = lit 290 10,
     SHELLY_DEPTH = lit 160 10,
     SHELLY_WALL_THICKNESS = lit 20 10,
     SHELLY_LIP_HEIGHT = lit 20 10,
     SHELLY_LIP_DEPTH = lit 15 10,
     SHELLY_CLEARANCE = fneg (lit 75 100),
     SHELLY_SHELF_THICKNESS = lit 20 10 \<rparr>"

section \<open>The CAD host\<close>

text \<open>
  \<^verbatim>\<open>FreeCAD.Vector\<close> holds three doubles; \<^verbatim>\<open>+\<close> on vectors adds componentwise.
  A vertex of a shape has coordinates \<^verbatim>\<open>X\<close>, \<^verbatim>\<open>Y\<close>, \<^verbatim>\<open>Z\<close>; an edge of a box is a
  segment between two vertices (\<^verbatim>\<open>edge.Vertexes[0]\<close> and \<^verbatim>\<open>edge.Vertexes[1]\<close>).
\<close>

datatype vector = Vector (vec_x: pyfloat) (vec_y: pyfloat) (vec_z: pyfloat)

definition vadd :: "vector \<Rightarrow> vector \<Rightarrow> vector" where
  "vadd a b = Vector (fadd (vec_x a) (vec_x b)) (fadd (vec_y a) (vec_y b)) (fadd (vec_z a) (vec_z b))"

datatype vertex = Vertex (vtx_X: pyfloat) (vtx_Y: pyfloat) (vtx_Z: pyfloat)

datatype edge = Edge (vertex0: vertex) (vertex1: vertex)

text \<open>
  The solids are built by the host's geometry kernel, which the script only calls. A shape
  is the term of kernel calls that produced it: \<open>Box l w h pnt\<close> is
  \<^verbatim>\<open>Part.makeBox(l, w, h, pnt)\<close>, \<open>Cylinder r h pnt dir\<close> is \<^verbatim>\<open>Part.makeCylinder\<close>,
  \<open>Cone r1 r2 h pnt dir\<close> is \<^verbatim>\<open>Part.makeCone\<close>, \<open>Cut a b\<close> is \<^verbatim>\<open>a.cut(b)\<close>,
  \<open>Fuse a b\<close> is \<^verbatim>\<open>a.fuse(b)\<close>, \<open>Fillet s r es\<close> is \<^verbatim>\<open>s.makeFillet(r, es)\<close> and
  \<open>Null\<close> is the empty \<^verbatim>\<open>Part.Shape()\<close>.
\<close>

datatype shape =
    Null
  | Box (box_length: pyfloat) (box_width: pyfloat) (box_height: pyfloat) (box_pnt: vector)
  | Cylinder (cyl_radius: pyfloat) (cyl_height: pyfloat) (cyl_pnt: vector) (cyl_dir: vector)
  | Cone (cone_radius1: pyfloat) (cone_radius2: pyfloat) (cone_height: pyfloat)
      (cone_pnt: vector) (cone_dir: vector)
  | Cut shape shape
  | Fuse shape shape
  | Fillet shape pyfloat "edge list"

text \<open>
  What the kernel does with a call is not in the script, so it is a parameter of the model:
  \<open>ok k s\<close> says whether the call that would produce \<open>s\<close> succeeds (otherwise it raises
  an exception), and \<open>Edges k s\<close> is the list \<^verbatim>\<open>s.Edges\<close>.
\<close>

record kernel =
  ok :: "shape \<Rightarrow> bool"
  Edges :: "shape \<Rightarrow> edge list"

text \<open>A kernel call: \<open>None\<close> is an exception raised by the call.\<close>

definition build :: "kernel \<Rightarrow> shape \<Rightarrow> shape option" where
  "build k s = (if ok k s then Some s else None)"

definition isNull :: "shape \<Rightarrow> bool" where
  "isNull s = (s = Null)"

text \<open>
  The document is the list of its objects in creation order. \<^verbatim>\<open>doc.addObject\<close> appends an
  object with an empty shape and returns a handle to it (its position); the attribute
  assignments of the script update the object behind the handle. The script runs inside the
  FreeCAD application (its entry point imports \<^verbatim>\<open>FreeCADGui\<close> before calling
  \<^verbatim>\<open>create_faceplate\<close>), so every object has a \<^verbatim>\<open>ViewObject\<close>.
\<close>

record feature =
  Name :: string
  Shape :: shape
  Transparency :: "int option"
  ShapeColor :: "(pyfloat \<times> pyfloat \<times> pyfloat) option"

record document =
  DocName :: string
  Objects :: "feature list"

definition newDocument :: "string \<Rightarrow> document" where
  "newDocument n = \<lparr> DocName = n, Objects = [] \<rparr>"

definition addObject :: "document \<Rightarrow> string \<Rightarrow> nat \<times> document" where
  "addObject d n =
     (length (Objects d),
      d\<lparr> Objects := Objects d @ [\<lparr> Name = n, Shape = Null, Transparency = None, ShapeColor = None \<rparr>] \<rparr>)"

definition update_object :: "nat \<Rightarrow> (feature \<Rightarrow> feature) \<Rightarrow> document \<Rightarrow> document" where
  "update_object h f d = d\<lparr> Objects := (Objects d)[h := f (Objects d ! h)] \<rparr>"

definition set_Shape :: "nat \<Rightarrow> shape \<Rightarrow> document \<Rightarrow> document" where
  "set_Shape h s = update_object h (\<lambda>ob. ob\<lparr> Shape := s \<rparr>)"

definition set_Transparency :: "nat \<Rightarrow> int \<Rightarrow> document \<Rightarrow> document" where
  "set_Transparency h t = update_object h (\<lambda>ob. ob\<lparr> Transparency := Some t \<rparr>)"

definition set_ShapeColor :: "nat \<Rightarrow> pyfloat \<times> pyfloat \<times> pyfloat \<Rightarrow> document \<Rightarrow> document" where
  "set_ShapeColor h c = update_object h (\<lambda>ob. ob\<lparr> ShapeColor := Some c \<rparr>)"

text \<open>Decimal digits of a loop index, for the f-strings that name the objects.\<close>

function str_nat :: "nat \<Rightarrow> string" where
  "str_nat n =
     (if n < 10 then [''0123456789'' ! n] else str_nat (n div 10) @ [''0123456789'' ! (n mod 10)])"
  by pat_completeness auto
termination
  by (relation "measure id") auto

declare str_nat.simps [simp del]

text \<open>A printed line is the list of the pieces of its f-string.\<close>

datatype piece = Txt string | FloatV pyfloat | IntV int

section \<open>The procedure \<^verbatim>\<open>create_faceplate\<close>\<close>

subsection \<open>Screw holes\<close>

definition base_box :: "params \<Rightarrow> shape" where
  "base_box p =
     Box (FACEPLATE_WIDTH p) (FACEPLATE_HEIGHT p) (FACEPLATE_THICKNESS p)
       (Vector (fdiv2 (fneg (FACEPLATE_WIDTH p))) (fdiv2 (fneg (FACEPLATE_HEIGHT p))) (of_pyint 0))"

definition screw_positions :: "params \<Rightarrow> vector list" where
  "screw_positions p =
     [Vector (fdiv2 (fneg (SCREW_SPACING p))) (of_pyint 0) (of_pyint 0),
      Vector (fdiv2 (SCREW_SPACING p)) (of_pyint 0) (of_pyint 0)]"

definition screw_hole :: "params \<Rightarrow> vector \<Rightarrow> shape" where
  "screw_hole p pos =
     Cylinder (fdiv2 (SCREW_DIAMETER p)) (fadd (FACEPLATE_THICKNESS p) (of_pyint 1))
       (vadd pos (Vector (of_pyint 0) (of_pyint 0) (fneg (lit 5 10))))
       (Vector (of_pyint 0) (of_pyint 0) (of_pyint 1))"

definition countersink :: "params \<Rightarrow> vector \<Rightarrow> shape" where
  "countersink p pos =
     Cone (fdiv2 (SCREW_DIAMETER p)) (fdiv2 (SCREW_COUNTERSINK_DIAMETER p))
       (SCREW_COUNTERSINK_DEPTH p)
       (vadd pos (Vector (of_pyint 0) (of_pyint 0)
          (fsub (FACEPLATE_THICKNESS p) (SCREW_COUNTERSINK_DEPTH p))))
       (Vector (of_pyint 0) (of_pyint 0) (of_pyint 1))"

fun cut_screw_holes :: "kernel \<Rightarrow> params \<Rightarrow> shape \<Rightarrow> vector list \<Rightarrow> shape option" where
  "cut_screw_holes k p faceplate [] = Some faceplate"
| "cut_screw_holes k p faceplate (pos # rest) = do {
     hole \<leftarrow> build k (screw_hole p pos);
     faceplate1 \<leftarrow> build k (Cut faceplate hole);
     sink \<leftarrow> build k (countersink p pos);
     faceplate2 \<leftarrow> build k (Cut faceplate1 sink);
     cut_screw_holes k p faceplate2 rest
   }"

subsection \<open>Mounting-plate pockets\<close>

text \<open>\<^verbatim>\<open>range(n)\<close> for an \<^verbatim>\<open>int\<close>: empty when \<open>n \<le> 0\<close>.\<close>

definition py_range :: "int \<Rightarrow> int list" where
  "py_range n = [0..n - 1]"

definition bilresa_y_pos :: pyfloat where
  "bilresa_y_pos = fneg (lit 120 10)"

definition total_span :: "params \<Rightarrow> pyfloat" where
  "total_span p = fmul (BILRESA_SPACING p) (of_pyint (NUM_BILRESA p - 1))"

definition start_x :: "params \<Rightarrow> pyfloat" where
  "start_x p = fdiv2 (fneg (total_span p))"

definition bilresa_positions :: "params \<Rightarrow> vector list" where
  "bilresa_positions p =
     map (\<lambda>i. Vector (fadd (start_x p) (fmul (of_pyint i) (BILRESA_SPACING p)))
                 bilresa_y_pos (of_pyint 0))
       (py_range (NUM_BILRESA p))"

definition pocket_width :: "params \<Rightarrow> pyfloat" where
  "pocket_width p = fadd (BILRESA_WIDTH p) (BILRESA_CLEARANCE p)"

definition pocket_length :: "params \<Rightarrow> pyfloat" where
  "pocket_length p = fadd (BILRESA_LENGTH p) (BILRESA_CLEARANCE p)"

definition pocket_corner_radius :: "params \<Rightarrow> pyfloat" where
  "pocket_corner_radius p = fadd (BILRESA_CORNER_RADIUS p) (fdiv2 (BILRESA_CLEARANCE p))"

definition pocket_z_depth :: "params \<Rightarrow> pyfloat" where
  "pocket_z_depth p = fsub (FACEPLATE_THICKNESS p) (BILRESA_FRONT_WALL p)"

definition pocket_box :: "params \<Rightarrow> vector \<Rightarrow> shape" where
  "pocket_box p pos =
     Box (pocket_width p) (pocket_length p) (pocket_z_depth p)
       (Vector (fsub (vec_x pos) (fdiv2 (pocket_width p)))
               (fsub (vec_y pos) (fdiv2 (pocket_length p)))
               (of_pyint 0))"

text \<open>The test of the edge loops: both ends of the edge have the same \<^verbatim>\<open>X\<close> and
  \<^verbatim>\<open>Y\<close>, so the edge is parallel to the Z axis.\<close>

definition z_parallel :: "edge \<Rightarrow> bool" where
  "z_parallel e =
     (vtx_X (vertex0 e) = vtx_X (vertex1 e) \<and> vtx_Y (vertex0 e) = vtx_Y (vertex1 e))"

text \<open>The radius handed to \<^verbatim>\<open>makeFillet\<close> for a pocket.\<close>

definition pocket_fillet_radius :: "params \<Rightarrow> pyfloat" where
  "pocket_fillet_radius p = fsub (pocket_corner_radius p) (lit 1 10)"

text \<open>The pocket that is cut: the filleted box, the box itself when \<^verbatim>\<open>makeFillet\<close>
  raises (the bare \<^verbatim>\<open>except\<close> catches every exception) or when no edge was selected.
  The call of \<^verbatim>\<open>makeBox\<close> is outside the \<^verbatim>\<open>try\<close>.\<close>

definition pocket :: "kernel \<Rightarrow> params \<Rightarrow> vector \<Rightarrow> shape option" where
  "pocket k p pos = do {
     box \<leftarrow> build k (pocket_box p pos);
     let edges_to_fillet = filter z_parallel (Edges k box);
     Some (if edges_to_fillet \<noteq> []
           then (case build k (Fillet box (pocket_fillet_radius p) edges_to_fillet) of
                   Some filleted \<Rightarrow> filleted
                 | None \<Rightarrow> box)
           else box)
   }"

fun cut_pockets :: "kernel \<Rightarrow> params \<Rightarrow> shape \<Rightarrow> vector list \<Rightarrow> shape option" where
  "cut_pockets k p faceplate [] = Some faceplate"
| "cut_pockets k p faceplate (pos # rest) = do {
     pk \<leftarrow> pocket k p pos;
     faceplate1 \<leftarrow> build k (Cut faceplate pk);
     cut_pockets k p faceplate1 rest
   }"

subsection \<open>LED holes\<close>

definition led_y_pos :: pyfloat where
  "led_y_pos = lit 300 10"

definition led_pos :: "vector \<Rightarrow> vector" where
  "led_pos pos = Vector (vec_x pos) led_y_pos (of_pyint 0)"

definition led_hole :: "params \<Rightarrow> vector \<Rightarrow> shape" where
  "led_hole p pos =
     Cylinder (fdiv2 (LED_HOLE_DIAMETER p)) (fadd (FACEPLATE_THICKNESS p) (of_pyint 1))
       (vadd (led_pos pos) (Vector (of_pyint 0) (of_pyint 0) (fneg (lit 5 10))))
       (Vector (of_pyint 0) (of_pyint 0) (of_pyint 1))"

definition led_recess :: "params \<Rightarrow> vector \<Rightarrow> shape" where
  "led_recess p pos =
     Cylinder (fdiv2 (LED_HEAD_DIAMETER p)) (fadd (LED_COUNTERSINK_DEPTH p) (lit 1 10))
       (vadd (led_pos pos) (Vector (of_pyint 0) (of_pyint 0)
          (fsub (FACEPLATE_THICKNESS p) (LED_COUNTERSINK_DEPTH p))))
       (Vector (of_pyint 0) (of_pyint 0) (of_pyint 1))"

fun cut_led_holes :: "kernel \<Rightarrow> params \<Rightarrow> shape \<Rightarrow> vector list \<Rightarrow> shape option" where
  "cut_led_holes k p faceplate [] = Some faceplate"
| "cut_led_holes k p faceplate (pos # rest) = do {
     hole \<leftarrow> build k (led_hole p pos);
     faceplate1 \<leftarrow> build k (Cut faceplate hole);
     recess \<leftarrow> build k (led_recess p pos);
     faceplate2 \<leftarrow> build k (Cut faceplate1 recess);
     cut_led_holes k p faceplate2 rest
   }"

subsection \<open>Device cradles\<close>

definition cradle_internal_width :: "params \<Rightarrow> pyfloat" where
  "cradle_internal_width p = fadd (SHELLY_WIDTH p) (SHELLY_CLEARANCE p)"

definition cradle_internal_height :: "params \<Rightarrow> pyfloat" where
  "cradle_internal_height p = fadd (SHELLY_HEIGHT p) (SHELLY_CLEARANCE p)"

definition cradle_external_width :: "params \<Rightarrow> pyfloat" where
  "cradle_external_width p =
     fadd (cradle_internal_width p) (fmul (of_pyint 2) (SHELLY_WALL_THICKNESS p))"

definition cradle_external_height :: "params \<Rightarrow> pyfloat" where
  "cradle_external_height p = fadd (cradle_internal_height p) (SHELLY_SHELF_THICKNESS p)"

definition cradle_depth :: "params \<Rightarrow> pyfloat" where
  "cradle_depth p = fadd (SHELLY_DEPTH p) (SHELLY_SHELF_THICKNESS p)"

definition shelly_y_pos :: "params \<Rightarrow> pyfloat" where
  "shelly_y_pos p =
     fadd (fadd (fdiv2 (fneg (FACEPLATE_HEIGHT p))) (fdiv2 (cradle_external_height p)))
       (lit 60 10)"

definition z_back :: "params \<Rightarrow> pyfloat" where
  "z_back p = fneg (cradle_depth p)"

definition shelf :: "params \<Rightarrow> pyfloat \<Rightarrow> shape" where
  "shelf p shelly_x =
     Box (cradle_external_width p) (SHELLY_SHELF_THICKNESS p) (cradle_depth p)
       (Vector (fsub shelly_x (fdiv2 (cradle_external_width p)))
               (fsub (shelly_y_pos p) (fdiv2 (cradle_external_height p)))
               (z_back p))"

definition shelf_lip :: "params \<Rightarrow> pyfloat \<Rightarrow> shape" where
  "shelf_lip p shelly_x =
     Box (cradle_internal_width p) (SHELLY_LIP_DEPTH p) (SHELLY_LIP_HEIGHT p)
       (Vector (fsub shelly_x (fdiv2 (cradle_internal_width p)))
               (fadd (fsub (shelly_y_pos p) (fdiv2 (cradle_external_height p)))
                  (SHELLY_SHELF_THICKNESS p))
               (z_back p))"

definition left_guide :: "params \<Rightarrow> pyfloat \<Rightarrow> shape" where
  "left_guide p shelly_x =
     Box (SHELLY_WALL_THICKNESS p) (cradle_internal_height p) (cradle_depth p)
       (Vector (fsub shelly_x (fdiv2 (cradle_external_width p)))
               (fadd (fsub (shelly_y_pos p) (fdiv2 (cradle_external_height p)))
                  (SHELLY_SHELF_THICKNESS p))
               (z_back p))"

definition left_lip :: "params \<Rightarrow> pyfloat \<Rightarrow> shape" where
  "left_lip p shelly_x =
     Box (SHELLY_LIP_DEPTH p) (cradle_internal_height p) (SHELLY_LIP_HEIGHT p)
       (Vector (fadd (fsub shelly_x (fdiv2 (cradle_external_width p))) (SHELLY_WALL_THICKNESS p))
               (fadd (fsub (shelly_y_pos p) (fdiv2 (cradle_external_height p)))
                  (SHELLY_SHELF_THICKNESS p))
               (z_back p))"

definition right_guide :: "params \<Rightarrow> pyfloat \<Rightarrow> shape" where
  "right_guide p shelly_x =
     Box (SHELLY_WALL_THICKNESS p) (cradle_internal_height p) (cradle_depth p)
       (Vector (fsub (fadd shelly_x (fdiv2 (cradle_external_width p))) (SHELLY_WALL_THICKNESS p))
               (fadd (fsub (shelly_y_pos p) (fdiv2 (cradle_external_height p)))
                  (SHELLY_SHELF_THICKNESS p))
               (z_back p))"

definition right_lip :: "params \<Rightarrow> pyfloat \<Rightarrow> shape" where
  "right_lip p shelly_x =
     Box (SHELLY_LIP_DEPTH p) (cradle_internal_height p) (SHELLY_LIP_HEIGHT p)
       (Vector (fsub (fsub (fadd shelly_x (fdiv2 (cradle_external_width p)))
                        (SHELLY_WALL_THICKNESS p))
                  (SHELLY_LIP_DEPTH p))
               (fadd (fsub (shelly_y_pos p) (fdiv2 (cradle_external_height p)))
                  (SHELLY_SHELF_THICKNESS p))
               (z_back p))"

text \<open>The six boxes of one cradle, in the order the script makes them.\<close>

definition cradle_boxes :: "params \<Rightarrow> pyfloat \<Rightarrow> shape list" where
  "cradle_boxes p shelly_x =
     [shelf p shelly_x, shelf_lip p shelly_x, left_guide p shelly_x, left_lip p shelly_x,
      right_guide p shelly_x, right_lip p shelly_x]"

definition cradle :: "kernel \<Rightarrow> params \<Rightarrow> vector \<Rightarrow> shape option" where
  "cradle k p bilresa_pos = do {
     let shelly_x = vec_x bilresa_pos;
     b1 \<leftarrow> build k (shelf p shelly_x);
     b2 \<leftarrow> build k (shelf_lip p shelly_x);
     b3 \<leftarrow> build k (left_guide p shelly_x);
     b4 \<leftarrow> build k (left_lip p shelly_x);
     b5 \<leftarrow> build k (right_guide p shelly_x);
     b6 \<leftarrow> build k (right_lip p shelly_x);
     c1 \<leftarrow> build k (Fuse b1 b2);
     c2 \<leftarrow> build k (Fuse c1 b3);
     c3 \<leftarrow> build k (Fuse c2 b4);
     c4 \<leftarrow> build k (Fuse c3 b5);
     build k (Fuse c4 b6)
   }"

fun fuse_cradles :: "kernel \<Rightarrow> params \<Rightarrow> shape \<Rightarrow> vector list \<Rightarrow> shape option" where
  "fuse_cradles k p shelly_housings [] = Some shelly_housings"
| "fuse_cradles k p shelly_housings (bilresa_pos # rest) = do {
     c \<leftarrow> cradle k p bilresa_pos;
     housings1 \<leftarrow> (if isNull shelly_housings then Some c else build k (Fuse shelly_housings c));
     fuse_cradles k p housings1 rest
   }"

subsection \<open>The manufactured solid\<close>

text \<open>Lines 90 to 329 of the script: the value of \<^verbatim>\<open>faceplate\<close> when it is assigned to the
  document object.\<close>

definition faceplate_solid :: "kernel \<Rightarrow> params \<Rightarrow> shape option" where
  "faceplate_solid k p = do {
     faceplate0 \<leftarrow> build k (base_box p);
     faceplate1 \<leftarrow> cut_screw_holes k p faceplate0 (screw_positions p);
     faceplate2 \<leftarrow> cut_pockets k p faceplate1 (bilresa_positions p);
     faceplate3 \<leftarrow> cut_led_holes k p faceplate2 (bilresa_positions p);
     shelly_housings \<leftarrow> fuse_cradles k p Null (bilresa_positions p);
     build k (Fuse faceplate3 shelly_housings)
   }"

subsection \<open>Reference objects\<close>

definition plate_z :: "params \<Rightarrow> pyfloat" where
  "plate_z p = fsub (pocket_z_depth p) (BILRESA_THICKNESS p)"

definition plate_box :: "params \<Rightarrow> vector \<Rightarrow> shape" where
  "plate_box p pos =
     Box (BILRESA_WIDTH p) (BILRESA_LENGTH p) (BILRESA_THICKNESS p)
       (Vector (fsub (vec_x pos) (fdiv2 (BILRESA_WIDTH p)))
               (fsub (vec_y pos) (fdiv2 (BILRESA_LENGTH p)))
               (plate_z p))"

definition plate_fillet_radius :: "params \<Rightarrow> pyfloat" where
  "plate_fillet_radius p = fsub (BILRESA_CORNER_RADIUS p) (lit 1 10)"

definition plate :: "kernel \<Rightarrow> params \<Rightarrow> vector \<Rightarrow> shape option" where
  "plate k p pos = do {
     box \<leftarrow> build k (plate_box p pos);
     let edges_to_fillet = filter z_parallel (Edges k box);
     Some (if edges_to_fillet \<noteq> []
           then (case build k (Fillet box (plate_fillet_radius p) edges_to_fillet) of
                   Some filleted \<Rightarrow> filleted
                 | None \<Rightarrow> box)
           else box)
   }"

fun add_plates :: "kernel \<Rightarrow> params \<Rightarrow> nat \<Rightarrow> vector list \<Rightarrow> document \<Rightarrow> document option" where
  "add_plates k p i [] doc = Some doc"
| "add_plates k p i (pos # rest) doc = do {
     pl \<leftarrow> plate k p pos;
     let (plate_obj, doc1) = addObject doc (''BILRESA_Plate_'' @ str_nat (i + 1));
     let doc2 = set_Shape plate_obj pl doc1;
     let doc3 = set_Transparency plate_obj 50 doc2;
     add_plates k p (i + 1) rest doc3
   }"

definition shelly_box :: "params \<Rightarrow> pyfloat \<Rightarrow> shape" where
  "shelly_box p shelly_x =
     Box (SHELLY_WIDTH p) (SHELLY_HEIGHT p) (SHELLY_DEPTH p)
       (Vector (fsub shelly_x (fdiv2 (SHELLY_WIDTH p)))
               (fadd (fadd (fsub (shelly_y_pos p) (fdiv2 (cradle_external_height p)))
                        (SHELLY_SHELF_THICKNESS p))
                  (fdiv2 (SHELLY_CLEARANCE p)))
               (fadd (fneg (cradle_depth p)) (SHELLY_SHELF_THICKNESS p)))"

fun add_shellys :: "kernel \<Rightarrow> params \<Rightarrow> nat \<Rightarrow> vector list \<Rightarrow> document \<Rightarrow> document option" where
  "add_shellys k p i [] doc = Some doc"
| "add_shellys k p i (bilresa_pos # rest) doc = do {
     box \<leftarrow> build k (shelly_box p (vec_x bilresa_pos));
     let (shelly_obj, doc1) = addObject doc (''Shelly_'' @ str_nat (i + 1));
     let doc2 = set_Shape shelly_obj box doc1;
     let doc3 = set_Transparency shelly_obj 70 doc2;
     let doc4 = set_ShapeColor shelly_obj (lit 2 10, lit 4 10, lit 8 10) doc3;
     add_shellys k p (i + 1) rest doc4
   }"

text \<open>Lines 338 to 395: the two loops that add the reference objects to a document.\<close>

definition add_references :: "kernel \<Rightarrow> params \<Rightarrow> document \<Rightarrow> document option" where
  "add_references k p doc = do {
     doc1 \<leftarrow> add_plates k p 0 (bilresa_positions p) doc;
     add_shellys k p 0 (bilresa_positions p) doc1
   }"

subsection \<open>The summary and the whole procedure\<close>

definition summary :: "params \<Rightarrow> piece list list" where
  "summary p =
     [[Txt (replicate 60 CHR ''='')],
      [Txt ''Heating Control Faceplate V6 created!''],
      [Txt (replicate 60 CHR ''='')],
      [Txt ''Faceplate size: '', FloatV (FACEPLATE_WIDTH p), Txt '' x '',
       FloatV (FACEPLATE_HEIGHT p), Txt '' x '', FloatV (FACEPLATE_THICKNESS p), Txt '' mm''],
      [Txt ''Screw spacing: '', FloatV (SCREW_SPACING p), Txt '' mm (centred)''],
      [Txt ''BILRESA pockets: '', IntV (NUM_BILRESA p), Txt ''x VERTICAL ('',
       FloatV (BILRESA_LENGTH p), Txt ''mm x '', FloatV (BILRESA_WIDTH p), Txt ''mm)''],
      [Txt ''  -> Back-accessible: '', FloatV (pocket_z_depth p), Txt ''mm deep, '',
       FloatV (BILRESA_FRONT_WALL p), Txt ''mm front wall''],
      [Txt ''  -> Slide plates in from back after printing''],
      [Txt ''  -> Position: Y='', FloatV bilresa_y_pos, Txt ''mm''],
      [Txt ''LED holes: '', IntV (NUM_BILRESA p), Txt ''x ('', FloatV (LED_HOLE_DIAMETER p),
       Txt ''mm)''],
      [Txt ''Shelly housings: '', IntV (NUM_BILRESA p), Txt ''x cradles on back (tighter fit)''],
      [Txt ''  -> Shelly size: '', FloatV (SHELLY_WIDTH p), Txt '' x '',
       FloatV (SHELLY_HEIGHT p), Txt '' x '', FloatV (SHELLY_DEPTH p), Txt '' mm''],
      [Txt ''  -> Cradle depth: '', FloatV (cradle_depth p), Txt '' mm from back surface''],
      [Txt (replicate 60 CHR ''='')]]"

text \<open>
  The result of a run: the returned document and the lines printed, or \<open>None\<close> when an
  exception of a kernel call leaves the function. \<^verbatim>\<open>doc.recompute()\<close> leaves the shapes of
  \<^verbatim>\<open>Part::Feature\<close> objects as they were set, and the two view calls (inside their own
  \<^verbatim>\<open>try\<close>) change no object, so neither appears in the state.
\<close>

definition create_faceplate :: "kernel \<Rightarrow> params \<Rightarrow> (document \<times> piece list list) option" where
  "create_faceplate k p = do {
     let doc = newDocument ''HeatingFaceplate'';
     faceplate \<leftarrow> faceplate_solid k p;
     let (faceplate_obj, doc1) = addObject doc ''HeatingFaceplate'';
     let doc2 = set_Shape faceplate_obj faceplate doc1;
     doc3 \<leftarrow> add_references k p doc2;
     Some (doc3, summary p)
   }"

section \<open>Geometry of a box\<close>

text \<open>The points of \<^verbatim>\<open>Part.makeBox(l, w, h, pnt)\<close>: the axis-aligned box with one corner at
  \<open>pnt\<close> and the opposite one at \<open>pnt + (l, w, h)\<close>.\<close>

definition box_points :: "shape \<Rightarrow> (real \<times> real \<times> real) set" where
  "box_points b =
     {(x, y, z).
        val (vec_x (box_pnt b)) \<le> x \<and> x \<le> val (vec_x (box_pnt b)) + val (box_length b) \<and>
        val (vec_y (box_pnt b)) \<le> y \<and> y \<le> val (vec_y (box_pnt b)) + val (box_width b) \<and>
        val (vec_z (box_pnt b)) \<le> z \<and> z \<le> val (vec_z (box_pnt b)) + val (box_height b)}"

section \<open>Two kernels\<close>

text \<open>The twelve edges of a box, and two kernels that run the script to its end: one whose
  every call succeeds, and one whose \<^verbatim>\<open>makeFillet\<close> always raises.\<close>

definition box_edges :: "shape \<Rightarrow> edge list" where
  "box_edges b =
     (let x0 = vec_x (box_pnt b); y0 = vec_y (box_pnt b); z0 = vec_z (box_pnt b);
          x1 = fadd x0 (box_length b); y1 = fadd y0 (box_width b); z1 = fadd z0 (box_height b)
      in [Edge (Vertex x0 y0 z0) (Vertex x0 y0 z1), Edge (Vertex x0 y1 z0) (Vertex x0 y1 z1),
          Edge (Vertex x1 y0 z0) (Vertex x1 y0 z1), Edge (Vertex x1 y1 z0) (Vertex x1 y1 z1),
          Edge (Vertex x0 y0 z0) (Vertex x0 y1 z0), Edge (Vertex x0 y0 z1) (Vertex x0 y1 z1),
          Edge (Vertex x1 y0 z0) (Vertex x1 y1 z0), Edge (Vertex x1 y0 z1) (Vertex x1 y1 z1),
          Edge (Vertex x0 y0 z0) (Vertex x1 y0 z0), Edge (Vertex x0 y0 z1) (Vertex x1 y0 z1),
          Edge (Vertex x0 y1 z0) (Vertex x1 y1 z0), Edge (Vertex x0 y1 z1) (Vertex x1 y1 z1)])"

definition is_fillet :: "shape \<Rightarrow> bool" where
  "is_fillet s = (case s of Fillet b r es \<Rightarrow> True | _ \<Rightarrow> False)"

definition good_kernel :: kernel where
  "good_kernel = \<lparr> ok = (\<lambda>s. True), Edges = box_edges \<rparr>"

definition no_fillet_kernel :: kernel where
  "no_fillet_kernel = \<lparr> ok = (\<lambda>s. \<not> is_fillet s), Edges = box_edges \<rparr>"

section \<open>Auxiliary facts\<close>

lemma val_Flt:
  "val (Flt m e) = (if 0 \<le> e then of_int (m * 2 ^ nat e) else of_int m / of_int (2 ^ nat (- e)))"
  by (simp add: val_def ratio_def)

lemma pocket_cases:
  "pocket k p pos = Some s \<Longrightarrow>
     s = pocket_box p pos \<or> (\<exists>es. s = Fillet (pocket_box p pos) (pocket_fillet_radius p) es)"
  by (auto simp: pocket_def build_def Let_def split: if_splits option.splits)

lemma pocket_width_eval: "pocket_width defaults = Flt 4728779608739021 (-48)"
  by code_simp

lemma pocket_length_eval: "pocket_length defaults = Flt 3321404725185741 (-46)"
  by code_simp

section \<open>Mounting-plate pockets: depth and front wall\<close>

text \<open>
  Claim C1. With the constants of the script, every pocket box (whatever its centre \<open>pos\<close>)
  has the height \<open>pocket_z_depth\<close> and starts at the back face \<open>z = 0\<close>; the cut depth
  plus the retained front wall \<open>BILRESA_FRONT_WALL\<close> is the thickness of the faceplate,
  both as Python adds them and as exact numbers; so every point of the box lies between
  \<open>z = 0\<close> and \<open>z = FACEPLATE_THICKNESS - BILRESA_FRONT_WALL\<close>, and the front skin of
  thickness \<open>BILRESA_FRONT_WALL\<close> is left. The pocket that is cut is this box, or the
  fillet of this box.
\<close>

theorem pocket_depth_plus_front_wall:
  "box_height (pocket_box defaults pos) = pocket_z_depth defaults \<and>
   vec_z (box_pnt (pocket_box defaults pos)) = of_pyint 0 \<and>
   val (of_pyint 0) = 0 \<and>
   fadd (pocket_z_depth defaults) (BILRESA_FRONT_WALL defaults) = FACEPLATE_THICKNESS defaults \<and>
   val (pocket_z_depth defaults) + val (BILRESA_FRONT_WALL defaults)
     = val (FACEPLATE_THICKNESS defaults) \<and>
   (\<forall>x y z. (x, y, z) \<in> box_points (pocket_box defaults pos) \<longrightarrow>
      0 \<le> z \<and> z \<le> val (FACEPLATE_THICKNESS defaults) - val (BILRESA_FRONT_WALL defaults)) \<and>
   (\<forall>k s. pocket k defaults pos = Some s \<longrightarrow>
      s = pocket_box defaults pos \<or>
      (\<exists>es. s = Fillet (pocket_box defaults pos) (pocket_fillet_radius defaults) es))"
proof -
  have sum: "fadd (pocket_z_depth defaults) (BILRESA_FRONT_WALL defaults)
      = FACEPLATE_THICKNESS defaults"
    by code_simp
  have v1: "val (pocket_z_depth defaults) = 3"
    by code_simp
  have v2: "val (BILRESA_FRONT_WALL defaults) = 1"
    by code_simp
  have v3: "val (FACEPLATE_THICKNESS defaults) = 4"
    by code_simp
  have v0: "val (of_pyint 0) = 0"
    by code_simp
  have box: "\<forall>x y z. (x, y, z) \<in> box_points (pocket_box defaults pos) \<longrightarrow>
      0 \<le> z \<and> z \<le> val (FACEPLATE_THICKNESS defaults) - val (BILRESA_FRONT_WALL defaults)"
    by (simp add: box_points_def pocket_box_def v0 v1 v2 v3)
  show ?thesis
    using sum v0 v1 v2 v3 box pocket_cases by (simp add: pocket_box_def)
qed

text \<open>The pocket centred at the origin, a corner of its box, and the kernel whose calls all
  succeed.\<close>

theorem pocket_depth_plus_front_wall_witness:
  "(val (fsub (of_pyint 0) (fdiv2 (pocket_width defaults))),
    val (fsub (of_pyint 0) (fdiv2 (pocket_length defaults))), 0)
     \<in> box_points (pocket_box defaults (Vector (of_pyint 0) (of_pyint 0) (of_pyint 0))) \<and>
   (0::real) \<le> 0 \<and>
   (0::real) \<le> val (FACEPLATE_THICKNESS defaults) - val (BILRESA_FRONT_WALL defaults) \<and>
   (\<exists>s. pocket good_kernel defaults (Vector (of_pyint 0) (of_pyint 0) (of_pyint 0)) = Some s \<and>
      (s = pocket_box defaults (Vector (of_pyint 0) (of_pyint 0) (of_pyint 0)) \<or>
       (\<exists>es. s = Fillet (pocket_box defaults (Vector (of_pyint 0) (of_pyint 0) (of_pyint 0)))
                  (pocket_fillet_radius defaults) es)))"
proof -
  let ?pos = "Vector (of_pyint 0) (of_pyint 0) (of_pyint 0)"
  have v0: "val (of_pyint 0) = 0"
    by code_simp
  have w: "0 \<le> val (pocket_width defaults)"
    by (simp add: pocket_width_eval val_Flt)
  have l: "0 \<le> val (pocket_length defaults)"
    by (simp add: pocket_length_eval val_Flt)
  have d: "0 \<le> val (pocket_z_depth defaults)"
    by code_simp
  have mem: "(val (fsub (of_pyint 0) (fdiv2 (pocket_width defaults))),
    val (fsub (of_pyint 0) (fdiv2 (pocket_length defaults))), 0)
     \<in> box_points (pocket_box defaults ?pos)"
    using w l d by (simp add: box_points_def pocket_box_def v0)
  obtain s where run: "pocket good_kernel defaults ?pos = Some s"
    by (simp add: pocket_def build_def good_kernel_def Let_def)
  show ?thesis
    using pocket_depth_plus_front_wall [of ?pos] mem run by blast
qed

lemma bilresa_positions_eval:
  "bilresa_positions defaults =
     [Vector (Flt (-5) 3) (Flt (-3) 2) (Flt 0 0), Vector (Flt 0 0) (Flt (-3) 2) (Flt 0 0),
      Vector (Flt 5 3) (Flt (-3) 2) (Flt 0 0)]"
  by code_simp

section \<open>Mounting-plate pockets: spacing and symmetry\<close>

text \<open>
  Claim C2. With the constants of the script there are \<open>NUM_BILRESA\<close> pocket centres; the X
  coordinates of consecutive centres differ by exactly \<open>BILRESA_SPACING\<close> (as exact numbers
  and as Python subtracts them); the X coordinates are symmetric about \<open>x = 0\<close> (the centre
  \<open>i\<close> places from the end is the mirror image of the centre \<open>i\<close> places from the start);
  and the first centre is at \<open>- BILRESA_SPACING * (NUM_BILRESA - 1) / 2\<close>.
\<close>

theorem pocket_centres_evenly_spaced:
  "length (bilresa_positions defaults) = nat (NUM_BILRESA defaults) \<and>
   (\<forall>i. Suc i < length (bilresa_positions defaults) \<longrightarrow>
      val (vec_x (bilresa_positions defaults ! Suc i)) - val (vec_x (bilresa_positions defaults ! i))
        = val (BILRESA_SPACING defaults) \<and>
      fsub (vec_x (bilresa_positions defaults ! Suc i)) (vec_x (bilresa_positions defaults ! i))
        = BILRESA_SPACING defaults) \<and>
   (\<forall>i. i < length (bilresa_positions defaults) \<longrightarrow>
      val (vec_x (bilresa_positions defaults ! (length (bilresa_positions defaults) - 1 - i)))
        = - val (vec_x (bilresa_positions defaults ! i))) \<and>
   val (vec_x (bilresa_positions defaults ! 0))
     = - (val (BILRESA_SPACING defaults) * (real_of_int (NUM_BILRESA defaults) - 1)) / 2"
proof -
  have n: "NUM_BILRESA defaults = 3"
    by (simp add: defaults_def)
  have s: "BILRESA_SPACING defaults = Flt 5 3"
    by code_simp
  have d1: "fsub (Flt 0 0) (Flt (-5) 3) = Flt 5 3"
    by code_simp
  have d2: "fsub (Flt 5 3) (Flt 0 0) = Flt 5 3"
    by code_simp
  have a: "length (bilresa_positions defaults) = nat (NUM_BILRESA defaults)"
    by (simp add: bilresa_positions_eval n)
  have b: "\<forall>i. Suc i < length (bilresa_positions defaults) \<longrightarrow>
      val (vec_x (bilresa_positions defaults ! Suc i)) - val (vec_x (bilresa_positions defaults ! i))
        = val (BILRESA_SPACING defaults) \<and>
      fsub (vec_x (bilresa_positions defaults ! Suc i)) (vec_x (bilresa_positions defaults ! i))
        = BILRESA_SPACING defaults"
  proof (intro allI impI)
    fix i
    assume "Suc i < length (bilresa_positions defaults)"
    then have "i < 2"
      by (simp add: bilresa_positions_eval)
    then have "i = 0 \<or> i = 1"
      by arith
    then show "val (vec_x (bilresa_positions defaults ! Suc i))
          - val (vec_x (bilresa_positions defaults ! i)) = val (BILRESA_SPACING defaults) \<and>
        fsub (vec_x (bilresa_positions defaults ! Suc i)) (vec_x (bilresa_positions defaults ! i))
          = BILRESA_SPACING defaults"
      by (auto simp: bilresa_positions_eval s d1 d2 val_Flt)
  qed
  have c: "\<forall>i. i < length (bilresa_positions defaults) \<longrightarrow>
      val (vec_x (bilresa_positions defaults ! (length (bilresa_positions defaults) - 1 - i)))
        = - val (vec_x (bilresa_positions defaults ! i))"
  proof (intro allI impI)
    fix i
    assume "i < length (bilresa_positions defaults)"
    then have "i < 3"
      by (simp add: bilresa_positions_eval)
    then have "i = 0 \<or> i = 1 \<or> i = 2"
      by arith
    then show "val (vec_x (bilresa_positions defaults
          ! (length (bilresa_positions defaults) - 1 - i)))
        = - val (vec_x (bilresa_positions defaults ! i))"
      by (auto simp: bilresa_positions_eval val_Flt)
  qed
  have d: "val (vec_x (bilresa_positions defaults ! 0))
     = - (val (BILRESA_SPACING defaults) * (real_of_int (NUM_BILRESA defaults) - 1)) / 2"
    by (simp add: bilresa_positions_eval s n val_Flt)
  show ?thesis
    using a b c d by blast
qed

text \<open>The first two pockets, and the first and the last.\<close>

theorem pocket_centres_evenly_spaced_witness:
  "Suc 0 < length (bilresa_positions defaults) \<and>
   val (vec_x (bilresa_positions defaults ! Suc 0)) - val (vec_x (bilresa_positions defaults ! 0))
     = val (BILRESA_SPACING defaults) \<and>
   val (vec_x (bilresa_positions defaults ! (length (bilresa_positions defaults) - 1 - 0)))
     = - val (vec_x (bilresa_positions defaults ! 0))"
proof -
  have "Suc 0 < length (bilresa_positions defaults)" "0 < length (bilresa_positions defaults)"
    by (simp_all add: bilresa_positions_eval)
  then show ?thesis
    using pocket_centres_evenly_spaced by blast
qed

section \<open>Screw holes\<close>

text \<open>
  Claim C3. With the constants of the script the two screw centres are at
  \<open>x = - SCREW_SPACING / 2\<close> and \<open>x = SCREW_SPACING / 2\<close>, both at \<open>y = 0\<close>, so exactly
  \<open>SCREW_SPACING\<close> apart. At each centre the through-cylinder has radius
  \<open>SCREW_DIAMETER / 2\<close>, its axis passes through the centre along +Z, and it starts below the
  back face and ends above the front face; the countersink cone has the radius of the hole
  as its small radius and \<open>SCREW_COUNTERSINK_DIAMETER / 2\<close> as its large radius, the same
  axis along +Z, starts at \<open>z = FACEPLATE_THICKNESS - SCREW_COUNTERSINK_DEPTH\<close> and ends,
  with its wide end, at the front face \<open>z = FACEPLATE_THICKNESS\<close>.
\<close>

theorem screw_holes_geometry:
  "map (\<lambda>pos. (val (vec_x pos), val (vec_y pos), val (vec_z pos))) (screw_positions defaults)
     = [(- val (SCREW_SPACING defaults) / 2, 0, 0), (val (SCREW_SPACING defaults) / 2, 0, 0)] \<and>
   val (vec_x (screw_positions defaults ! 1)) - val (vec_x (screw_positions defaults ! 0))
     = val (SCREW_SPACING defaults) \<and>
   list_all (\<lambda>pos.
       val (cyl_radius (screw_hole defaults pos)) = val (SCREW_DIAMETER defaults) / 2 \<and>
       vec_x (cyl_pnt (screw_hole defaults pos)) = vec_x pos \<and>
       vec_y (cyl_pnt (screw_hole defaults pos)) = vec_y pos \<and>
       cyl_dir (screw_hole defaults pos) = Vector (of_pyint 0) (of_pyint 0) (of_pyint 1) \<and>
       val (vec_z (cyl_pnt (screw_hole defaults pos))) < 0 \<and>
       val (FACEPLATE_THICKNESS defaults)
         < val (vec_z (cyl_pnt (screw_hole defaults pos))) + val (cyl_height (screw_hole defaults pos)) \<and>
       cone_radius1 (countersink defaults pos) = cyl_radius (screw_hole defaults pos) \<and>
       val (cone_radius2 (countersink defaults pos))
         = val (SCREW_COUNTERSINK_DIAMETER defaults) / 2 \<and>
       vec_x (cone_pnt (countersink defaults pos)) = vec_x pos \<and>
       vec_y (cone_pnt (countersink defaults pos)) = vec_y pos \<and>
       cone_dir (countersink defaults pos) = Vector (of_pyint 0) (of_pyint 0) (of_pyint 1) \<and>
       val (of_pyint 0) = 0 \<and> val (of_pyint 1) = 1 \<and>
       val (vec_z (cone_pnt (countersink defaults pos)))
         = val (FACEPLATE_THICKNESS defaults) - val (SCREW_COUNTERSINK_DEPTH defaults) \<and>
       val (vec_z (cone_pnt (countersink defaults pos))) + val (cone_height (countersink defaults pos))
         = val (FACEPLATE_THICKNESS defaults))
     (screw_positions defaults)"
proof -
  have c: "SCREW_SPACING defaults = Flt 15 3" "SCREW_DIAMETER defaults = Flt 1 2"
    "SCREW_COUNTERSINK_DIAMETER defaults = Flt 1 3" "SCREW_COUNTERSINK_DEPTH defaults = Flt 1 1"
    "FACEPLATE_THICKNESS defaults = Flt 1 2" "of_pyint 0 = Flt 0 0" "of_pyint 1 = Flt 1 0"
    by code_simp+
  have p: "screw_positions defaults
      = [Vector (Flt (-15) 2) (Flt 0 0) (Flt 0 0), Vector (Flt 15 2) (Flt 0 0) (Flt 0 0)]"
    by code_simp
  have h1: "screw_hole defaults (Vector (Flt (-15) 2) (Flt 0 0) (Flt 0 0))
      = Cylinder (Flt 1 1) (Flt 5 0) (Vector (Flt (-15) 2) (Flt 0 0) (Flt (-1) (-1)))
          (Vector (Flt 0 0) (Flt 0 0) (Flt 1 0))"
    by code_simp
  have h2: "screw_hole defaults (Vector (Flt 15 2) (Flt 0 0) (Flt 0 0))
      = Cylinder (Flt 1 1) (Flt 5 0) (Vector (Flt 15 2) (Flt 0 0) (Flt (-1) (-1)))
          (Vector (Flt 0 0) (Flt 0 0) (Flt 1 0))"
    by code_simp
  have k1: "countersink defaults (Vector (Flt (-15) 2) (Flt 0 0) (Flt 0 0))
      = Cone (Flt 1 1) (Flt 1 2) (Flt 1 1) (Vector (Flt (-15) 2) (Flt 0 0) (Flt 1 1))
          (Vector (Flt 0 0) (Flt 0 0) (Flt 1 0))"
    by code_simp
  have k2: "countersink defaults (Vector (Flt 15 2) (Flt 0 0) (Flt 0 0))
      = Cone (Flt 1 1) (Flt 1 2) (Flt 1 1) (Vector (Flt 15 2) (Flt 0 0) (Flt 1 1))
          (Vector (Flt 0 0) (Flt 0 0) (Flt 1 0))"
    by code_simp
  show ?thesis
    by (simp add: p c h1 h2 k1 k2 val_Flt)
qed

section \<open>LED holes\<close>

text \<open>
  Claim C4. The centre of an LED hole takes its X coordinate from the pocket centre and
  its Y coordinate from the constant \<open>led_y_pos = 30.0\<close>, whatever the Y (and Z) coordinate
  of the pocket centre is. With the constants of the script, at each of the three pocket
  centres the LED cut is a cylinder of radius \<open>LED_HOLE_DIAMETER / 2\<close> along +Z through the
  whole plate (from below the back face to above the front face), and a cylinder of radius
  \<open>LED_HEAD_DIAMETER / 2\<close> on the same axis whose bottom is \<open>LED_COUNTERSINK_DEPTH\<close> below
  the front face and whose top is not below the front face.
\<close>

theorem led_holes_geometry:
  "vec_x (led_pos pos) = vec_x pos \<and>
   vec_y (led_pos pos) = led_y_pos \<and>
   val led_y_pos = 30 \<and>
   led_pos (Vector x y z) = led_pos (Vector x y' z') \<and>
   led_hole p (Vector x y z) = led_hole p (Vector x y' z') \<and>
   led_recess p (Vector x y z) = led_recess p (Vector x y' z') \<and>
   map (\<lambda>pos. vec_x (led_pos pos)) (bilresa_positions defaults)
     = map vec_x (bilresa_positions defaults) \<and>
   list_all (\<lambda>pos.
       cyl_radius (led_hole defaults pos) = fdiv2 (LED_HOLE_DIAMETER defaults) \<and>
       val (cyl_radius (led_hole defaults pos)) = val (LED_HOLE_DIAMETER defaults) / 2 \<and>
       vec_x (cyl_pnt (led_hole defaults pos)) = vec_x pos \<and>
       vec_y (cyl_pnt (led_hole defaults pos)) = led_y_pos \<and>
       cyl_dir (led_hole defaults pos) = Vector (of_pyint 0) (of_pyint 0) (of_pyint 1) \<and>
       val (vec_z (cyl_pnt (led_hole defaults pos))) < 0 \<and>
       val (FACEPLATE_THICKNESS defaults)
         < val (vec_z (cyl_pnt (led_hole defaults pos))) + val (cyl_height (led_hole defaults pos)) \<and>
       cyl_radius (led_recess defaults pos) = fdiv2 (LED_HEAD_DIAMETER defaults) \<and>
       val (cyl_radius (led_recess defaults pos)) = val (LED_HEAD_DIAMETER defaults) / 2 \<and>
       val (cyl_radius (led_hole defaults pos)) < val (cyl_radius (led_recess defaults pos)) \<and>
       vec_x (cyl_pnt (led_recess defaults pos)) = vec_x pos \<and>
       vec_y (cyl_pnt (led_recess defaults pos)) = led_y_pos \<and>
       cyl_dir (led_recess defaults pos) = Vector (of_pyint 0) (of_pyint 0) (of_pyint 1) \<and>
       val (vec_z (cyl_pnt (led_recess defaults pos)))
         = val (FACEPLATE_THICKNESS defaults) - val (LED_COUNTERSINK_DEPTH defaults) \<and>
       val (FACEPLATE_THICKNESS defaults)
         \<le> val (vec_z (cyl_pnt (led_recess defaults pos)))
             + val (cyl_height (led_recess defaults pos)))
     (bilresa_positions defaults)"
proof -
  have c: "LED_HOLE_DIAMETER defaults = Flt 43 (-2)"
    "LED_HEAD_DIAMETER defaults = Flt 6530219459687219 (-49)"
    "LED_COUNTERSINK_DEPTH defaults = Flt 1 0"
    "FACEPLATE_THICKNESS defaults = Flt 1 2" "of_pyint 0 = Flt 0 0" "of_pyint 1 = Flt 1 0"
    "led_y_pos = Flt 15 1"
    "fdiv2 (Flt 43 (-2)) = Flt 43 (-3)"
    "fdiv2 (Flt 6530219459687219 (-49)) = Flt 6530219459687219 (-50)"
    by code_simp+
  have h: "led_hole defaults (Vector (Flt (-5) 3) (Flt (-3) 2) (Flt 0 0))
      = Cylinder (Flt 43 (-3)) (Flt 5 0) (Vector (Flt (-5) 3) (Flt 15 1) (Flt (-1) (-1)))
          (Vector (Flt 0 0) (Flt 0 0) (Flt 1 0))"
    "led_hole defaults (Vector (Flt 0 0) (Flt (-3) 2) (Flt 0 0))
      = Cylinder (Flt 43 (-3)) (Flt 5 0) (Vector (Flt 0 0) (Flt 15 1) (Flt (-1) (-1)))
          (Vector (Flt 0 0) (Flt 0 0) (Flt 1 0))"
    "led_hole defaults (Vector (Flt 5 3) (Flt (-3) 2) (Flt 0 0))
      = Cylinder (Flt 43 (-3)) (Flt 5 0) (Vector (Flt 5 3) (Flt 15 1) (Flt (-1) (-1)))
          (Vector (Flt 0 0) (Flt 0 0) (Flt 1 0))"
    by code_simp+
  have r: "led_recess defaults (Vector (Flt (-5) 3) (Flt (-3) 2) (Flt 0 0))
      = Cylinder (Flt 6530219459687219 (-50)) (Flt 2476979795053773 (-51))
          (Vector (Flt (-5) 3) (Flt 15 1) (Flt 3 0)) (Vector (Flt 0 0) (Flt 0 0) (Flt 1 0))"
    "led_recess defaults (Vector (Flt 0 0) (Flt (-3) 2) (Flt 0 0))
      = Cylinder (Flt 6530219459687219 (-50)) (Flt 2476979795053773 (-51))
          (Vector (Flt 0 0) (Flt 15 1) (Flt 3 0)) (Vector (Flt 0 0) (Flt 0 0) (Flt 1 0))"
    "led_recess defaults (Vector (Flt 5 3) (Flt (-3) 2) (Flt 0 0))
      = Cylinder (Flt 6530219459687219 (-50)) (Flt 2476979795053773 (-51))
          (Vector (Flt 5 3) (Flt 15 1) (Flt 3 0)) (Vector (Flt 0 0) (Flt 0 0) (Flt 1 0))"
    by code_simp+
  have general: "vec_x (led_pos pos) = vec_x pos \<and> vec_y (led_pos pos) = led_y_pos \<and>
     led_pos (Vector x y z) = led_pos (Vector x y' z') \<and>
     led_hole p (Vector x y z) = led_hole p (Vector x y' z') \<and>
     led_recess p (Vector x y z) = led_recess p (Vector x y' z')"
    by (simp add: led_pos_def led_hole_def led_recess_def)
  have xs: "map (\<lambda>pos. vec_x (led_pos pos)) (bilresa_positions defaults)
     = map vec_x (bilresa_positions defaults)"
    by (simp add: led_pos_def)
  have y: "val led_y_pos = 30"
    by (simp add: c val_Flt)
  have each: "list_all (\<lambda>pos.
       cyl_radius (led_hole defaults pos) = fdiv2 (LED_HOLE_DIAMETER defaults) \<and>
       val (cyl_radius (led_hole defaults pos)) = val (LED_HOLE_DIAMETER defaults) / 2 \<and>
       vec_x (cyl_pnt (led_hole defaults pos)) = vec_x pos \<and>
       vec_y (cyl_pnt (led_hole defaults pos)) = led_y_pos \<and>
       cyl_dir (led_hole defaults pos) = Vector (of_pyint 0) (of_pyint 0) (of_pyint 1) \<and>
       val (vec_z (cyl_pnt (led_hole defaults pos))) < 0 \<and>
       val (FACEPLATE_THICKNESS defaults)
         < val (vec_z (cyl_pnt (led_hole defaults pos))) + val (cyl_height (led_hole defaults pos)) \<and>
       cyl_radius (led_recess defaults pos) = fdiv2 (LED_HEAD_DIAMETER defaults) \<and>
       val (cyl_radius (led_recess defaults pos)) = val (LED_HEAD_DIAMETER defaults) / 2 \<and>
       val (cyl_radius (led_hole defaults pos)) < val (cyl_radius (led_recess defaults pos)) \<and>
       vec_x (cyl_pnt (led_recess defaults pos)) = vec_x pos \<and>
       vec_y (cyl_pnt (led_recess defaults pos)) = led_y_pos \<and>
       cyl_dir (led_recess defaults pos) = Vector (of_pyint 0) (of_pyint 0) (of_pyint 1) \<and>
       val (vec_z (cyl_pnt (led_recess defaults pos)))
         = val (FACEPLATE_THICKNESS defaults) - val (LED_COUNTERSINK_DEPTH defaults) \<and>
       val (FACEPLATE_THICKNESS defaults)
         \<le> val (vec_z (cyl_pnt (led_recess defaults pos)))
             + val (cyl_height (led_recess defaults pos)))
     (bilresa_positions defaults)"
    by (simp add: bilresa_positions_eval c h r val_Flt)
  show ?thesis
    using general xs y each by blast
qed

section \<open>Pocket fillet radius\<close>

text \<open>
  Claim C9. With the constants of the script the radius handed to \<^verbatim>\<open>makeFillet\<close> for a
  pocket is \<open>pocket_corner_radius - 0.1\<close>, which Python evaluates to the double \<open>8.3\<close>; the
  corner radius \<open>pocket_corner_radius\<close> is the double \<open>8.4\<close>, which is also half the
  pocket width, the radius of a true stadium end; adding \<open>0.1\<close> back gives the corner radius
  again; and the applied radius is strictly less than half the pocket width.
\<close>

theorem pocket_fillet_radius_below_half_width:
  "pocket_fillet_radius defaults = fsub (pocket_corner_radius defaults) (lit 1 10) \<and>
   pocket_fillet_radius defaults = lit 83 10 \<and>
   pocket_corner_radius defaults = lit 84 10 \<and>
   fdiv2 (pocket_width defaults) = lit 84 10 \<and>
   pocket_width defaults = lit 168 10 \<and>
   fadd (pocket_fillet_radius defaults) (lit 1 10) = pocket_corner_radius defaults \<and>
   val (pocket_fillet_radius defaults) < val (fdiv2 (pocket_width defaults)) \<and>
   \<bar>val (pocket_fillet_radius defaults) - 83 / 10\<bar> < 1 / 10 ^ 15 \<and>
   \<bar>val (fdiv2 (pocket_width defaults)) - 84 / 10\<bar> < 1 / 10 ^ 15"
proof -
  have a: "pocket_fillet_radius defaults = Flt 2336242306698445 (-48)"
    by code_simp
  have b: "fdiv2 (pocket_width defaults) = Flt 4728779608739021 (-49)"
    by code_simp
  have f1: "pocket_fillet_radius defaults = fsub (pocket_corner_radius defaults) (lit 1 10)"
    by (simp add: pocket_fillet_radius_def)
  have f2: "pocket_fillet_radius defaults = lit 83 10"
    by code_simp
  have f3: "pocket_corner_radius defaults = lit 84 10"
    by code_simp
  have f4: "fdiv2 (pocket_width defaults) = lit 84 10"
    by code_simp
  have f5: "pocket_width defaults = lit 168 10"
    by code_simp
  have f6: "fadd (pocket_fillet_radius defaults) (lit 1 10) = pocket_corner_radius defaults"
    by code_simp
  have f7: "val (pocket_fillet_radius defaults) < val (fdiv2 (pocket_width defaults))"
    by (simp add: a b val_Flt)
  have f8: "\<bar>val (pocket_fillet_radius defaults) - 83 / 10\<bar> < 1 / 10 ^ 15"
    by (simp add: a val_Flt)
  have f9: "\<bar>val (fdiv2 (pocket_width defaults)) - 84 / 10\<bar> < 1 / 10 ^ 15"
    by (simp add: b val_Flt)
  show ?thesis
    using f1 f2 f3 f4 f5 f6 f7 f8 f9 by blast
qed

section \<open>Cradle dimensions\<close>

text \<open>
  Claim C6. With the constants of the script, among them the negative clearance
  \<open>SHELLY_CLEARANCE = -0.75\<close>, the internal width and height of a cradle are the size of
  the device plus the clearance, the external width is the internal width plus twice
  \<open>SHELLY_WALL_THICKNESS\<close> and the external height is the internal height plus
  \<open>SHELLY_SHELF_THICKNESS\<close>, as exact numbers: no operation rounds. At each of the three
  positions the boxes of the cradle have these outer dimensions: from the left face of the
  left guide (and of the shelf) to the right face of the right guide is the external width,
  and from the bottom of the shelf to the top of the guides is the external height.
\<close>

theorem cradle_external_dimensions:
  "val (SHELLY_CLEARANCE defaults) = - 75 / 100 \<and>
   val (cradle_internal_width defaults)
     = val (SHELLY_WIDTH defaults) + val (SHELLY_CLEARANCE defaults) \<and>
   val (cradle_internal_height defaults)
     = val (SHELLY_HEIGHT defaults) + val (SHELLY_CLEARANCE defaults) \<and>
   val (cradle_external_width defaults)
     = (val (SHELLY_WIDTH defaults) + val (SHELLY_CLEARANCE defaults))
       + 2 * val (SHELLY_WALL_THICKNESS defaults) \<and>
   val (cradle_external_height defaults)
     = (val (SHELLY_HEIGHT defaults) + val (SHELLY_CLEARANCE defaults))
       + val (SHELLY_SHELF_THICKNESS defaults) \<and>
   list_all (\<lambda>pos.
       box_length (shelf defaults (vec_x pos)) = cradle_external_width defaults \<and>
       vec_x (box_pnt (left_guide defaults (vec_x pos)))
         = vec_x (box_pnt (shelf defaults (vec_x pos))) \<and>
       val (vec_x (box_pnt (right_guide defaults (vec_x pos))))
           + val (box_length (right_guide defaults (vec_x pos)))
           - val (vec_x (box_pnt (left_guide defaults (vec_x pos))))
         = val (cradle_external_width defaults) \<and>
       val (vec_y (box_pnt (left_guide defaults (vec_x pos))))
           + val (box_width (left_guide defaults (vec_x pos)))
           - val (vec_y (box_pnt (shelf defaults (vec_x pos))))
         = val (cradle_external_height defaults) \<and>
       val (vec_y (box_pnt (right_guide defaults (vec_x pos))))
           + val (box_width (right_guide defaults (vec_x pos)))
           - val (vec_y (box_pnt (shelf defaults (vec_x pos))))
         = val (cradle_external_height defaults))
     (bilresa_positions defaults)"
proof -
  have c: "SHELLY_CLEARANCE defaults = Flt (-3) (-2)" "SHELLY_WIDTH defaults = Flt 35 0"
    "SHELLY_HEIGHT defaults = Flt 29 0" "SHELLY_WALL_THICKNESS defaults = Flt 1 1"
    "SHELLY_SHELF_THICKNESS defaults = Flt 1 1"
    "cradle_internal_width defaults = Flt 137 (-2)"
    "cradle_internal_height defaults = Flt 113 (-2)"
    "cradle_external_width defaults = Flt 153 (-2)"
    "cradle_external_height defaults = Flt 121 (-2)"
    by code_simp+
  have s: "shelf defaults (Flt (-5) 3)
      = Box (Flt 153 (-2)) (Flt 1 1) (Flt 9 1) (Vector (Flt (-473) (-3)) (Flt (-37) 0) (Flt (-9) 1))"
    "shelf defaults (Flt 0 0)
      = Box (Flt 153 (-2)) (Flt 1 1) (Flt 9 1) (Vector (Flt (-153) (-3)) (Flt (-37) 0) (Flt (-9) 1))"
    "shelf defaults (Flt 5 3)
      = Box (Flt 153 (-2)) (Flt 1 1) (Flt 9 1) (Vector (Flt 167 (-3)) (Flt (-37) 0) (Flt (-9) 1))"
    by code_simp+
  have l: "left_guide defaults (Flt (-5) 3)
      = Box (Flt 1 1) (Flt 113 (-2)) (Flt 9 1) (Vector (Flt (-473) (-3)) (Flt (-35) 0) (Flt (-9) 1))"
    "left_guide defaults (Flt 0 0)
      = Box (Flt 1 1) (Flt 113 (-2)) (Flt 9 1) (Vector (Flt (-153) (-3)) (Flt (-35) 0) (Flt (-9) 1))"
    "left_guide defaults (Flt 5 3)
      = Box (Flt 1 1) (Flt 113 (-2)) (Flt 9 1) (Vector (Flt 167 (-3)) (Flt (-35) 0) (Flt (-9) 1))"
    by code_simp+
  have r: "right_guide defaults (Flt (-5) 3)
      = Box (Flt 1 1) (Flt 113 (-2)) (Flt 9 1) (Vector (Flt (-183) (-3)) (Flt (-35) 0) (Flt (-9) 1))"
    "right_guide defaults (Flt 0 0)
      = Box (Flt 1 1) (Flt 113 (-2)) (Flt 9 1) (Vector (Flt 137 (-3)) (Flt (-35) 0) (Flt (-9) 1))"
    "right_guide defaults (Flt 5 3)
      = Box (Flt 1 1) (Flt 113 (-2)) (Flt 9 1) (Vector (Flt 457 (-3)) (Flt (-35) 0) (Flt (-9) 1))"
    by code_simp+
  show ?thesis
    by (simp add: bilresa_positions_eval c s l r val_Flt)
qed

section \<open>Auxiliary facts about the whole run\<close>

text \<open>No function of the model reads \<open>BILRESA_POCKET_DEPTH\<close>.\<close>

lemma depth_unused_dims:
  "base_box (p\<lparr>BILRESA_POCKET_DEPTH := v\<rparr>) = base_box p"
  "screw_positions (p\<lparr>BILRESA_POCKET_DEPTH := v\<rparr>) = screw_positions p"
  "screw_hole (p\<lparr>BILRESA_POCKET_DEPTH := v\<rparr>) = screw_hole p"
  "countersink (p\<lparr>BILRESA_POCKET_DEPTH := v\<rparr>) = countersink p"
  "bilresa_positions (p\<lparr>BILRESA_POCKET_DEPTH := v\<rparr>) = bilresa_positions p"
  "pocket_z_depth (p\<lparr>BILRESA_POCKET_DEPTH := v\<rparr>) = pocket_z_depth p"
  "pocket_box (p\<lparr>BILRESA_POCKET_DEPTH := v\<rparr>) = pocket_box p"
  "pocket_fillet_radius (p\<lparr>BILRESA_POCKET_DEPTH := v\<rparr>) = pocket_fillet_radius p"
  "led_hole (p\<lparr>BILRESA_POCKET_DEPTH := v\<rparr>) = led_hole p"
  "led_recess (p\<lparr>BILRESA_POCKET_DEPTH := v\<rparr>) = led_recess p"
  "cradle_depth (p\<lparr>BILRESA_POCKET_DEPTH := v\<rparr>) = cradle_depth p"
  "plate_box (p\<lparr>BILRESA_POCKET_DEPTH := v\<rparr>) = plate_box p"
  "plate_fillet_radius (p\<lparr>BILRESA_POCKET_DEPTH := v\<rparr>) = plate_fillet_radius p"
  by (simp_all add: fun_eq_iff base_box_def screw_positions_def screw_hole_def countersink_def
      bilresa_positions_def start_x_def total_span_def pocket_z_depth_def pocket_box_def
      pocket_width_def pocket_length_def pocket_fillet_radius_def pocket_corner_radius_def
      led_hole_def led_recess_def cradle_depth_def plate_box_def plate_z_def
      plate_fillet_radius_def)

lemma depth_unused_cradle:
  "shelf (p\<lparr>BILRESA_POCKET_DEPTH := v\<rparr>) = shelf p"
  "shelf_lip (p\<lparr>BILRESA_POCKET_DEPTH := v\<rparr>) = shelf_lip p"
  "left_guide (p\<lparr>BILRESA_POCKET_DEPTH := v\<rparr>) = left_guide p"
  "left_lip (p\<lparr>BILRESA_POCKET_DEPTH := v\<rparr>) = left_lip p"
  "right_guide (p\<lparr>BILRESA_POCKET_DEPTH := v\<rparr>) = right_guide p"
  "right_lip (p\<lparr>BILRESA_POCKET_DEPTH := v\<rparr>) = right_lip p"
  "shelly_box (p\<lparr>BILRESA_POCKET_DEPTH := v\<rparr>) = shelly_box p"
  by (simp_all add: fun_eq_iff shelf_def shelf_lip_def left_guide_def left_lip_def
      right_guide_def right_lip_def shelly_box_def cradle_internal_width_def
      cradle_internal_height_def cradle_external_width_def cradle_external_height_def
      cradle_depth_def shelly_y_pos_def z_back_def)

lemma depth_unused_steps:
  "pocket k (p\<lparr>BILRESA_POCKET_DEPTH := v\<rparr>) = pocket k p"
  "plate k (p\<lparr>BILRESA_POCKET_DEPTH := v\<rparr>) = plate k p"
  "cradle k (p\<lparr>BILRESA_POCKET_DEPTH := v\<rparr>) = cradle k p"
  "summary (p\<lparr>BILRESA_POCKET_DEPTH := v\<rparr>) = summary p"
  by (simp_all add: fun_eq_iff pocket_def plate_def cradle_def summary_def depth_unused_dims
      depth_unused_cradle Let_def cong: if_cong option.case_cong)

lemma depth_unused_cut_screw_holes:
  "cut_screw_holes k (p\<lparr>BILRESA_POCKET_DEPTH := v\<rparr>) f ps = cut_screw_holes k p f ps"
  by (induction ps arbitrary: f) (simp_all add: depth_unused_dims)

lemma depth_unused_cut_pockets:
  "cut_pockets k (p\<lparr>BILRESA_POCKET_DEPTH := v\<rparr>) f ps = cut_pockets k p f ps"
  by (induction ps arbitrary: f) (simp_all add: depth_unused_steps)

lemma depth_unused_cut_led_holes:
  "cut_led_holes k (p\<lparr>BILRESA_POCKET_DEPTH := v\<rparr>) f ps = cut_led_holes k p f ps"
  by (induction ps arbitrary: f) (simp_all add: depth_unused_dims)

lemma depth_unused_fuse_cradles:
  "fuse_cradles k (p\<lparr>BILRESA_POCKET_DEPTH := v\<rparr>) h ps = fuse_cradles k p h ps"
  by (induction ps arbitrary: h) (simp_all add: depth_unused_steps)

lemma depth_unused_add_plates:
  "add_plates k (p\<lparr>BILRESA_POCKET_DEPTH := v\<rparr>) i ps d = add_plates k p i ps d"
  by (induction ps arbitrary: i d) (simp_all add: depth_unused_steps)

lemma depth_unused_add_shellys:
  "add_shellys k (p\<lparr>BILRESA_POCKET_DEPTH := v\<rparr>) i ps d = add_shellys k p i ps d"
  by (induction ps arbitrary: i d) (simp_all add: depth_unused_cradle)

lemma depth_unused_faceplate_solid:
  "faceplate_solid k (p\<lparr>BILRESA_POCKET_DEPTH := v\<rparr>) = faceplate_solid k p"
  by (simp add: faceplate_solid_def depth_unused_dims depth_unused_cut_screw_holes
      depth_unused_cut_pockets depth_unused_cut_led_holes depth_unused_fuse_cradles)

lemma depth_unused_add_references:
  "add_references k (p\<lparr>BILRESA_POCKET_DEPTH := v\<rparr>) d = add_references k p d"
  by (simp add: add_references_def depth_unused_dims depth_unused_add_plates
      depth_unused_add_shellys)

lemma depth_unused_create_faceplate:
  "create_faceplate k (p\<lparr>BILRESA_POCKET_DEPTH := v\<rparr>) = create_faceplate k p"
  by (simp add: create_faceplate_def depth_unused_faceplate_solid depth_unused_add_references
      depth_unused_steps)

text \<open>When every call but \<^verbatim>\<open>makeFillet\<close> succeeds, every step of the run returns.\<close>

lemma is_fillet_simps:
  "\<not> is_fillet Null" "\<not> is_fillet (Box l w h pnt)" "\<not> is_fillet (Cylinder r h pnt dir)"
  "\<not> is_fillet (Cone r1 r2 h pnt dir)" "\<not> is_fillet (Cut a b)" "\<not> is_fillet (Fuse a b)"
  "is_fillet (Fillet a r es)"
  by (simp_all add: is_fillet_def)

lemma build_Some: "ok k s \<Longrightarrow> build k s = Some s"
  by (simp add: build_def)

lemma build_eq_Some: "build k s = Some s' \<Longrightarrow> s' = s"
  by (simp add: build_def split: if_splits)

lemma build_bind: "build k s \<bind> f = (if ok k s then f s else None)"
  by (simp add: build_def)

lemma cut_screw_holes_succeeds:
  "\<forall>s. \<not> is_fillet s \<longrightarrow> ok k s \<Longrightarrow> \<exists>f'. cut_screw_holes k p f ps = Some f'"
  by (induction ps arbitrary: f)
    (simp_all add: build_Some screw_hole_def countersink_def is_fillet_simps)

lemma pocket_succeeds:
  "\<forall>s. \<not> is_fillet s \<longrightarrow> ok k s \<Longrightarrow> \<exists>s. pocket k p pos = Some s"
  by (simp add: pocket_def build_Some pocket_box_def is_fillet_simps Let_def)

lemma cut_pockets_succeeds:
  assumes "\<forall>s. \<not> is_fillet s \<longrightarrow> ok k s"
  shows "\<exists>f'. cut_pockets k p f ps = Some f'"
proof (induction ps arbitrary: f)
  case Nil
  show ?case by simp
next
  case (Cons pos ps)
  obtain s where "pocket k p pos = Some s"
    using pocket_succeeds [OF assms] by blast
  then show ?case
    using Cons assms by (simp add: build_Some is_fillet_simps)
qed

lemma cut_led_holes_succeeds:
  "\<forall>s. \<not> is_fillet s \<longrightarrow> ok k s \<Longrightarrow> \<exists>f'. cut_led_holes k p f ps = Some f'"
  by (induction ps arbitrary: f)
    (simp_all add: build_Some led_hole_def led_recess_def is_fillet_simps)

text \<open>The term of one cradle: the six boxes fused from left to right.\<close>

lemma cradle_eq_Some:
  "cradle k p pos = Some c \<Longrightarrow>
     c = Fuse (Fuse (Fuse (Fuse (Fuse (shelf p (vec_x pos)) (shelf_lip p (vec_x pos)))
           (left_guide p (vec_x pos))) (left_lip p (vec_x pos)))
           (right_guide p (vec_x pos))) (right_lip p (vec_x pos))"
  by (simp add: cradle_def Let_def build_bind build_def split: if_splits)

lemma cradle_succeeds:
  "\<forall>s. \<not> is_fillet s \<longrightarrow> ok k s \<Longrightarrow> \<exists>c. cradle k p pos = Some c"
  by (simp add: cradle_def Let_def build_Some shelf_def shelf_lip_def left_guide_def
      left_lip_def right_guide_def right_lip_def is_fillet_simps)

lemma fuse_cradles_succeeds:
  assumes "\<forall>s. \<not> is_fillet s \<longrightarrow> ok k s"
  shows "\<exists>h'. fuse_cradles k p h ps = Some h'"
proof (induction ps arbitrary: h)
  case Nil
  show ?case by simp
next
  case (Cons pos ps)
  obtain c where "cradle k p pos = Some c"
    using cradle_succeeds [OF assms] by blast
  then show ?case
    using Cons assms by (simp add: build_Some is_fillet_simps)
qed

lemma faceplate_solid_succeeds:
  assumes "\<forall>s. \<not> is_fillet s \<longrightarrow> ok k s"
  shows "\<exists>f. faceplate_solid k p = Some f"
proof -
  have b: "build k (base_box p) = Some (base_box p)"
    using assms by (simp add: build_Some base_box_def is_fillet_simps)
  obtain f1 where f1: "cut_screw_holes k p (base_box p) (screw_positions p) = Some f1"
    using cut_screw_holes_succeeds [OF assms] by blast
  obtain f2 where f2: "cut_pockets k p f1 (bilresa_positions p) = Some f2"
    using cut_pockets_succeeds [OF assms] by blast
  obtain f3 where f3: "cut_led_holes k p f2 (bilresa_positions p) = Some f3"
    using cut_led_holes_succeeds [OF assms] by blast
  obtain h where h: "fuse_cradles k p Null (bilresa_positions p) = Some h"
    using fuse_cradles_succeeds [OF assms] by blast
  show ?thesis
    using assms by (simp add: faceplate_solid_def b f1 f2 f3 h build_Some is_fillet_simps)
qed

lemma plate_succeeds:
  "\<forall>s. \<not> is_fillet s \<longrightarrow> ok k s \<Longrightarrow> \<exists>s. plate k p pos = Some s"
  by (simp add: plate_def build_Some plate_box_def is_fillet_simps Let_def)

lemma add_plates_succeeds:
  assumes "\<forall>s. \<not> is_fillet s \<longrightarrow> ok k s"
  shows "\<exists>d'. add_plates k p i ps d = Some d'"
proof (induction ps arbitrary: i d)
  case Nil
  show ?case by simp
next
  case (Cons pos ps)
  obtain s where "plate k p pos = Some s"
    using plate_succeeds [OF assms] by blast
  then show ?case
    using Cons by (simp add: Let_def split: prod.splits)
qed

lemma add_shellys_succeeds:
  assumes "\<forall>s. \<not> is_fillet s \<longrightarrow> ok k s"
  shows "\<exists>d'. add_shellys k p i ps d = Some d'"
proof (induction ps arbitrary: i d)
  case Nil
  show ?case by simp
next
  case (Cons pos ps)
  have "build k (shelly_box p (vec_x pos)) = Some (shelly_box p (vec_x pos))"
    using assms by (simp add: build_Some shelly_box_def is_fillet_simps)
  then show ?case
    using Cons by (simp add: Let_def split: prod.splits)
qed

lemma add_references_succeeds:
  assumes "\<forall>s. \<not> is_fillet s \<longrightarrow> ok k s"
  shows "\<exists>d'. add_references k p d = Some d'"
proof -
  obtain d1 where d1: "add_plates k p 0 (bilresa_positions p) d = Some d1"
    using add_plates_succeeds [OF assms] by blast
  obtain d2 where "add_shellys k p 0 (bilresa_positions p) d1 = Some d2"
    using add_shellys_succeeds [OF assms] by blast
  then show ?thesis
    by (simp add: add_references_def d1)
qed

lemma create_faceplate_succeeds:
  assumes "\<forall>s. \<not> is_fillet s \<longrightarrow> ok k s"
  shows "\<exists>doc. create_faceplate k p = Some (doc, summary p)"
proof -
  obtain f where f: "faceplate_solid k p = Some f"
    using faceplate_solid_succeeds [OF assms] by blast
  obtain d' where "add_references k p
      (set_Shape (fst (addObject (newDocument ''HeatingFaceplate'') ''HeatingFaceplate'')) f
         (snd (addObject (newDocument ''HeatingFaceplate'') ''HeatingFaceplate''))) = Some d'"
    using add_references_succeeds [OF assms] by blast
  then show ?thesis
    by (simp add: create_faceplate_def f Let_def split_def)
qed

lemma new_object_appended:
  "Objects (update_object (length (Objects d)) f (d\<lparr>Objects := Objects d @ [ob]\<rparr>))
     = Objects d @ [f ob]"
  by (simp add: update_object_def)

lemma add_plates_appends:
  "add_plates k p i ps d = Some d' \<Longrightarrow>
     \<exists>refs. Objects d' = Objects d @ refs \<and> length refs = length ps"
proof (induction ps arbitrary: i d)
  case Nil
  then show ?case by simp
next
  case (Cons pos ps)
  show ?case
    using Cons.prems
    by (auto simp: bind_eq_Some_conv Let_def split_def addObject_def set_Shape_def
        set_Transparency_def update_object_def dest!: Cons.IH)
qed

lemma add_shellys_appends:
  "add_shellys k p i ps d = Some d' \<Longrightarrow>
     \<exists>refs. Objects d' = Objects d @ refs \<and> length refs = length ps"
proof (induction ps arbitrary: i d)
  case Nil
  then show ?case by simp
next
  case (Cons pos ps)
  show ?case
    using Cons.prems
    by (auto simp: bind_eq_Some_conv Let_def split_def addObject_def set_Shape_def
        set_Transparency_def set_ShapeColor_def update_object_def dest!: Cons.IH)
qed

lemma add_references_appends:
  assumes "add_references k p d = Some d'"
  shows "\<exists>refs. Objects d' = Objects d @ refs \<and> length refs = 2 * length (bilresa_positions p)"
proof -
  from assms obtain d1 where
    a: "add_plates k p 0 (bilresa_positions p) d = Some d1" and
    b: "add_shellys k p 0 (bilresa_positions p) d1 = Some d'"
    by (auto simp: add_references_def bind_eq_Some_conv)
  from add_plates_appends [OF a] obtain r1 where
    r1: "Objects d1 = Objects d @ r1" "length r1 = length (bilresa_positions p)"
    by blast
  from add_shellys_appends [OF b] obtain r2 where
    r2: "Objects d' = Objects d1 @ r2" "length r2 = length (bilresa_positions p)"
    by blast
  have "Objects d' = Objects d @ (r1 @ r2) \<and> length (r1 @ r2) = 2 * length (bilresa_positions p)"
    by (simp add: r1 r2)
  then show ?thesis by blast
qed

section \<open>Reference objects\<close>

text \<open>
  Claim C7. In every run that returns, the manufactured solid is the value of
  \<open>faceplate_solid\<close>, computed before any reference object exists; it is assigned to the
  first object of the document, \<^verbatim>\<open>HeatingFaceplate\<close>, while that object is the only one;
  the reference objects are then added by \<open>add_references\<close>, which only appends objects:
  the returned document is the faceplate object, unchanged, followed by the two reference
  objects of each pocket position, so the shape of the faceplate object after the
  reference objects were added is the shape it was given before.
\<close>

theorem reference_objects_leave_faceplate:
  assumes "create_faceplate k p = Some (doc, out)"
  shows "\<exists>faceplate refs.
     faceplate_solid k p = Some faceplate \<and>
     add_references k p
       \<lparr>DocName = ''HeatingFaceplate'',
        Objects = [\<lparr>Name = ''HeatingFaceplate'', Shape = faceplate, Transparency = None,
                    ShapeColor = None\<rparr>]\<rparr> = Some doc \<and>
     Objects doc = \<lparr>Name = ''HeatingFaceplate'', Shape = faceplate, Transparency = None,
                     ShapeColor = None\<rparr> # refs \<and>
     length refs = 2 * length (bilresa_positions p) \<and>
     Name (Objects doc ! 0) = ''HeatingFaceplate'' \<and>
     Shape (Objects doc ! 0) = faceplate"
proof -
  let ?d2 = "\<lambda>f. \<lparr>DocName = ''HeatingFaceplate'',
      Objects = [\<lparr>Name = ''HeatingFaceplate'', Shape = f, Transparency = None,
                  ShapeColor = None\<rparr>]\<rparr>"
  from assms obtain faceplate where
    f: "faceplate_solid k p = Some faceplate" and
    r: "add_references k p (?d2 faceplate) = Some doc"
    by (auto simp: create_faceplate_def bind_eq_Some_conv Let_def split_def addObject_def
        newDocument_def set_Shape_def update_object_def)
  from add_references_appends [OF r] obtain refs where
    "Objects doc = Objects (?d2 faceplate) @ refs" "length refs = 2 * length (bilresa_positions p)"
    by blast
  then show ?thesis
    using f r by simp
qed

text \<open>The run with the constants of the script on the kernel whose calls all succeed.\<close>

theorem reference_objects_leave_faceplate_witness:
  "\<exists>doc faceplate refs.
     create_faceplate good_kernel defaults = Some (doc, summary defaults) \<and>
     faceplate_solid good_kernel defaults = Some faceplate \<and>
     Objects doc = \<lparr>Name = ''HeatingFaceplate'', Shape = faceplate, Transparency = None,
                     ShapeColor = None\<rparr> # refs \<and>
     Shape (Objects doc ! 0) = faceplate"
proof -
  have "\<forall>s. \<not> is_fillet s \<longrightarrow> ok good_kernel s"
    by (simp add: good_kernel_def)
  then obtain doc where "create_faceplate good_kernel defaults = Some (doc, summary defaults)"
    using create_faceplate_succeeds by blast
  then show ?thesis
    using reference_objects_leave_faceplate [of good_kernel defaults doc "summary defaults"]
    by blast
qed

section \<open>Fillet failures\<close>

text \<open>
  Claim C8. Let every kernel call other than \<^verbatim>\<open>makeFillet\<close> succeed. Then the run returns
  its document, whatever \<^verbatim>\<open>makeFillet\<close> does, and prints exactly the summary; when
  \<^verbatim>\<open>makeFillet\<close> raises on the selected edges of a pocket box, the pocket is the box itself,
  and likewise for a reference plate. The lines printed by any run that returns are the
  summary, which depends on the parameters only: the fallback prints nothing.
\<close>

theorem fillet_failure_falls_back:
  assumes "\<forall>s. \<not> is_fillet s \<longrightarrow> ok k s"
  shows "(\<exists>doc. create_faceplate k p = Some (doc, summary p)) \<and>
    (\<not> ok k (Fillet (pocket_box p pos) (pocket_fillet_radius p)
              (filter z_parallel (Edges k (pocket_box p pos))))
       \<longrightarrow> pocket k p pos = Some (pocket_box p pos)) \<and>
    (\<not> ok k (Fillet (plate_box p pos) (plate_fillet_radius p)
              (filter z_parallel (Edges k (plate_box p pos))))
       \<longrightarrow> plate k p pos = Some (plate_box p pos)) \<and>
    (\<forall>k' doc' out'. create_faceplate k' p = Some (doc', out') \<longrightarrow> out' = summary p)"
proof -
  have boxes: "ok k (pocket_box p pos)" "ok k (plate_box p pos)"
    using assms by (simp_all add: pocket_box_def plate_box_def is_fillet_simps)
  have a: "\<not> ok k (Fillet (pocket_box p pos) (pocket_fillet_radius p)
              (filter z_parallel (Edges k (pocket_box p pos))))
       \<longrightarrow> pocket k p pos = Some (pocket_box p pos)"
    using boxes by (simp add: pocket_def build_def Let_def)
  have b: "\<not> ok k (Fillet (plate_box p pos) (plate_fillet_radius p)
              (filter z_parallel (Edges k (plate_box p pos))))
       \<longrightarrow> plate k p pos = Some (plate_box p pos)"
    using boxes by (simp add: plate_def build_def Let_def)
  have c: "\<forall>k' doc' out'. create_faceplate k' p = Some (doc', out') \<longrightarrow> out' = summary p"
    by (auto simp: create_faceplate_def bind_eq_Some_conv Let_def split_def)
  show ?thesis
    using create_faceplate_succeeds [OF assms] a b c by blast
qed

text \<open>The run with the constants of the script on the kernel whose \<^verbatim>\<open>makeFillet\<close> always
  raises: the pocket at the origin has four edges to fillet, and falls back to its box.\<close>

theorem fillet_failure_falls_back_witness:
  "(\<exists>doc. create_faceplate no_fillet_kernel defaults = Some (doc, summary defaults)) \<and>
   pocket no_fillet_kernel defaults (Vector (of_pyint 0) (of_pyint 0) (of_pyint 0))
     = Some (pocket_box defaults (Vector (of_pyint 0) (of_pyint 0) (of_pyint 0))) \<and>
   plate no_fillet_kernel defaults (Vector (of_pyint 0) (of_pyint 0) (of_pyint 0))
     = Some (plate_box defaults (Vector (of_pyint 0) (of_pyint 0) (of_pyint 0))) \<and>
   filter z_parallel (Edges no_fillet_kernel
      (pocket_box defaults (Vector (of_pyint 0) (of_pyint 0) (of_pyint 0)))) \<noteq> []"
proof -
  have h: "\<forall>s. \<not> is_fillet s \<longrightarrow> ok no_fillet_kernel s"
    by (simp add: no_fillet_kernel_def)
  have n: "\<And>b r es. \<not> ok no_fillet_kernel (Fillet b r es)"
    by (simp add: no_fillet_kernel_def is_fillet_def)
  have e: "filter z_parallel (Edges no_fillet_kernel
      (pocket_box defaults (Vector (of_pyint 0) (of_pyint 0) (of_pyint 0)))) \<noteq> []"
    by (simp add: no_fillet_kernel_def box_edges_def Let_def z_parallel_def)
  show ?thesis
    using fillet_failure_falls_back [OF h, of defaults "Vector (of_pyint 0) (of_pyint 0) (of_pyint 0)"]
      n e by blast
qed

lemma fuse_cradles_three:
  assumes "fuse_cradles k p Null [a, b, c] = Some h"
  shows "\<exists>c1 c2 c3. cradle k p a = Some c1 \<and> cradle k p b = Some c2 \<and> cradle k p c = Some c3 \<and>
           h = Fuse (Fuse c1 c2) c3"
proof -
  from assms obtain c1 h1 where c1: "cradle k p a = Some c1" and h1: "h1 = c1" and
    r1: "fuse_cradles k p h1 [b, c] = Some h"
    by (auto simp: bind_eq_Some_conv isNull_def)
  have n1: "\<not> isNull h1"
    using cradle_eq_Some [OF c1] h1 by (simp add: isNull_def)
  from r1 n1 obtain c2 h2 where c2: "cradle k p b = Some c2" and h2: "h2 = Fuse h1 c2" and
    r2: "fuse_cradles k p h2 [c] = Some h"
    by (auto simp: bind_eq_Some_conv dest!: build_eq_Some)
  from r2 h2 obtain c3 where c3: "cradle k p c = Some c3" and h3: "h = Fuse h2 c3"
    by (auto simp: bind_eq_Some_conv isNull_def dest!: build_eq_Some)
  show ?thesis
    using c1 c2 c3 h1 h2 h3 by simp
qed

lemma faceplate_solid_eq_Some:
  "faceplate_solid k p = Some s \<Longrightarrow>
     \<exists>f h. fuse_cradles k p Null (bilresa_positions p) = Some h \<and> s = Fuse f h"
  by (auto simp: faceplate_solid_def bind_eq_Some_conv dest!: build_eq_Some)

section \<open>Device cradles\<close>

text \<open>
  Claim C5. A cradle that is built is the fuse of exactly six boxes: the shelf, the shelf
  lip, the left guide, the left lip, the right guide and the right lip, fused in this order.
  With the constants of the script each of the six is a box whose top is at or below
  \<open>z = 0\<close>, so all its points have \<open>z \<le> 0\<close>. The three cradles are fused with each other,
  and the result is fused onto the faceplate: the manufactured solid is
  \<open>Fuse faceplate housings\<close>.
\<close>

theorem cradles_fused_behind_back_face:
  "(\<forall>k pos c. cradle k p pos = Some c \<longrightarrow>
      c = Fuse (Fuse (Fuse (Fuse (Fuse (shelf p (vec_x pos)) (shelf_lip p (vec_x pos)))
            (left_guide p (vec_x pos))) (left_lip p (vec_x pos)))
            (right_guide p (vec_x pos))) (right_lip p (vec_x pos))) \<and>
   cradle_boxes p sx = [shelf p sx, shelf_lip p sx, left_guide p sx, left_lip p sx,
      right_guide p sx, right_lip p sx] \<and>
   list_all (\<lambda>b.
       (\<exists>l w h pnt. b = Box l w h pnt) \<and>
       0 \<le> val (box_height b) \<and>
       val (vec_z (box_pnt b)) + val (box_height b) \<le> 0 \<and>
       (\<forall>x y z. (x, y, z) \<in> box_points b \<longrightarrow> z \<le> 0))
     (cradle_boxes defaults sx) \<and>
   (\<forall>k h. fuse_cradles k defaults Null (bilresa_positions defaults) = Some h \<longrightarrow>
      (\<exists>c1 c2 c3. map (cradle k defaults) (bilresa_positions defaults)
           = [Some c1, Some c2, Some c3] \<and>
         h = Fuse (Fuse c1 c2) c3)) \<and>
   (\<forall>k s. faceplate_solid k p = Some s \<longrightarrow>
      (\<exists>f h. fuse_cradles k p Null (bilresa_positions p) = Some h \<and> s = Fuse f h))"
proof -
  have c: "z_back defaults = Flt (-9) 1" "cradle_depth defaults = Flt 9 1"
    "SHELLY_LIP_HEIGHT defaults = Flt 1 1"
    by code_simp+
  have boxes: "list_all (\<lambda>b.
       (\<exists>l w h pnt. b = Box l w h pnt) \<and>
       0 \<le> val (box_height b) \<and>
       val (vec_z (box_pnt b)) + val (box_height b) \<le> 0 \<and>
       (\<forall>x y z. (x, y, z) \<in> box_points b \<longrightarrow> z \<le> 0))
     (cradle_boxes defaults sx)"
    by (simp add: cradle_boxes_def shelf_def shelf_lip_def left_guide_def left_lip_def
        right_guide_def right_lip_def box_points_def c val_Flt)
  have three: "\<forall>k h. fuse_cradles k defaults Null (bilresa_positions defaults) = Some h \<longrightarrow>
      (\<exists>c1 c2 c3. map (cradle k defaults) (bilresa_positions defaults)
           = [Some c1, Some c2, Some c3] \<and>
         h = Fuse (Fuse c1 c2) c3)"
    using fuse_cradles_three by (fastforce simp: bilresa_positions_eval)
  show ?thesis
    using boxes three cradle_eq_Some faceplate_solid_eq_Some
    by (simp add: cradle_boxes_def)
qed

text \<open>The cradle at \<open>x = 0\<close> and the whole solid, on the kernel whose calls all succeed.\<close>

theorem cradles_fused_behind_back_face_witness:
  "(\<exists>c. cradle good_kernel defaults (Vector (of_pyint 0) (of_pyint 0) (of_pyint 0)) = Some c \<and>
      c = Fuse (Fuse (Fuse (Fuse (Fuse (shelf defaults (of_pyint 0)) (shelf_lip defaults (of_pyint 0)))
            (left_guide defaults (of_pyint 0))) (left_lip defaults (of_pyint 0)))
            (right_guide defaults (of_pyint 0))) (right_lip defaults (of_pyint 0))) \<and>
   (\<exists>h c1 c2 c3. fuse_cradles good_kernel defaults Null (bilresa_positions defaults) = Some h \<and>
      h = Fuse (Fuse c1 c2) c3) \<and>
   (\<exists>s f h. faceplate_solid good_kernel defaults = Some s \<and> s = Fuse f h)"
proof -
  have g: "\<forall>s. \<not> is_fillet s \<longrightarrow> ok good_kernel s"
    by (simp add: good_kernel_def)
  obtain c where c: "cradle good_kernel defaults (Vector (of_pyint 0) (of_pyint 0) (of_pyint 0))
      = Some c"
    using cradle_succeeds [OF g] by blast
  obtain h where h: "fuse_cradles good_kernel defaults Null (bilresa_positions defaults) = Some h"
    using fuse_cradles_succeeds [OF g] by blast
  obtain s where s: "faceplate_solid good_kernel defaults = Some s"
    using faceplate_solid_succeeds [OF g] by blast
  show ?thesis
    using cradles_fused_behind_back_face [of defaults "of_pyint 0"] c h s
    by (metis vector.sel(1))
qed

section \<open>The unused constant\<close>

text \<open>
  Claim C10. \<open>BILRESA_POCKET_DEPTH\<close> is never read: two runs whose parameters differ in
  it only return the same document and print the same lines, and build the same solid and
  the same pockets. The height of a pocket box is \<open>FACEPLATE_THICKNESS - BILRESA_FRONT_WALL\<close>,
  with the constants of the script \<open>3.0\<close>, and not \<open>BILRESA_POCKET_DEPTH = 0.7\<close>.
\<close>

theorem pocket_depth_constant_unused:
  "create_faceplate k (p\<lparr>BILRESA_POCKET_DEPTH := v\<rparr>) = create_faceplate k p \<and>
   faceplate_solid k (p\<lparr>BILRESA_POCKET_DEPTH := v\<rparr>) = faceplate_solid k p \<and>
   pocket k (p\<lparr>BILRESA_POCKET_DEPTH := v\<rparr>) pos = pocket k p pos \<and>
   box_height (pocket_box p pos) = fsub (FACEPLATE_THICKNESS p) (BILRESA_FRONT_WALL p) \<and>
   box_height (pocket_box defaults pos) = lit 30 10 \<and>
   val (box_height (pocket_box defaults pos)) = 3 \<and>
   BILRESA_POCKET_DEPTH defaults = lit 7 10 \<and>
   val (BILRESA_POCKET_DEPTH defaults) < 1 \<and>
   box_height (pocket_box defaults pos) \<noteq> BILRESA_POCKET_DEPTH defaults"
proof -
  have a: "pocket_z_depth defaults = Flt 3 0" "lit 30 10 = Flt 3 0"
    "BILRESA_POCKET_DEPTH defaults = Flt 3152519739159347 (-52)"
    "lit 7 10 = Flt 3152519739159347 (-52)"
    by code_simp+
  show ?thesis
    by (simp add: depth_unused_create_faceplate depth_unused_faceplate_solid depth_unused_steps
        pocket_box_def pocket_z_depth_def [symmetric] a val_Flt)
qed

end
